theory Spec2Isabelle
  imports Main "HOL-Library.AList" "HOL-Library.Option_ord" "HOL-Library.Char_ord"
    "HOL-Library.List_Lexorder" "HOL-Library.Product_Lexorder"
begin

section \<open>Text, characters and the two regular-expression primitives\<close>

text \<open>
  Formula text, short labels and column identifiers are strings of code points below 256:
  a \<^typ>\<open>char\<close> stands for the code point of the same number, and the classes below are
  those of Python's \<^verbatim>\<open>re\<close> and \<^verbatim>\<open>str\<close> on these code points. Column identifiers contain
  no backslash, so that the replacement argument of \<^verbatim>\<open>re.sub\<close> is inserted as it is.
\<close>

definition latin1_word_chars :: string where
  \<comment> \<open>the code points from 128 to 255 that \<^verbatim>\<open>\w\<close> matches: letters and numeric characters\<close>
  "latin1_word_chars =
     [CHR 0xAA, CHR 0xB2, CHR 0xB3, CHR 0xB5, CHR 0xB9, CHR 0xBA, CHR 0xBC, CHR 0xBD, CHR 0xBE,
      CHR 0xC0, CHR 0xC1, CHR 0xC2, CHR 0xC3, CHR 0xC4, CHR 0xC5, CHR 0xC6, CHR 0xC7,
      CHR 0xC8, CHR 0xC9, CHR 0xCA, CHR 0xCB, CHR 0xCC, CHR 0xCD, CHR 0xCE, CHR 0xCF,
      CHR 0xD0, CHR 0xD1, CHR 0xD2, CHR 0xD3, CHR 0xD4, CHR 0xD5, CHR 0xD6,
      CHR 0xD8, CHR 0xD9, CHR 0xDA, CHR 0xDB, CHR 0xDC, CHR 0xDD, CHR 0xDE, CHR 0xDF,
      CHR 0xE0, CHR 0xE1, CHR 0xE2, CHR 0xE3, CHR 0xE4, CHR 0xE5, CHR 0xE6, CHR 0xE7,
      CHR 0xE8, CHR 0xE9, CHR 0xEA, CHR 0xEB, CHR 0xEC, CHR 0xED, CHR 0xEE, CHR 0xEF,
      CHR 0xF0, CHR 0xF1, CHR 0xF2, CHR 0xF3, CHR 0xF4, CHR 0xF5, CHR 0xF6,
      CHR 0xF8, CHR 0xF9, CHR 0xFA, CHR 0xFB, CHR 0xFC, CHR 0xFD, CHR 0xFE, CHR 0xFF]"

definition latin1_upper :: string where
  \<comment> \<open>the capital letters from 192 to 222; 215 is the multiplication sign\<close>
  "latin1_upper =
     [CHR 0xC0, CHR 0xC1, CHR 0xC2, CHR 0xC3, CHR 0xC4, CHR 0xC5, CHR 0xC6, CHR 0xC7,
      CHR 0xC8, CHR 0xC9, CHR 0xCA, CHR 0xCB, CHR 0xCC, CHR 0xCD, CHR 0xCE, CHR 0xCF,
      CHR 0xD0, CHR 0xD1, CHR 0xD2, CHR 0xD3, CHR 0xD4, CHR 0xD5, CHR 0xD6,
      CHR 0xD8, CHR 0xD9, CHR 0xDA, CHR 0xDB, CHR 0xDC, CHR 0xDD, CHR 0xDE]"

definition latin1_lower :: string where
  \<comment> \<open>their small letters, 32 code points above\<close>
  "latin1_lower =
     [CHR 0xE0, CHR 0xE1, CHR 0xE2, CHR 0xE3, CHR 0xE4, CHR 0xE5, CHR 0xE6, CHR 0xE7,
      CHR 0xE8, CHR 0xE9, CHR 0xEA, CHR 0xEB, CHR 0xEC, CHR 0xED, CHR 0xEE, CHR 0xEF,
      CHR 0xF0, CHR 0xF1, CHR 0xF2, CHR 0xF3, CHR 0xF4, CHR 0xF5, CHR 0xF6,
      CHR 0xF8, CHR 0xF9, CHR 0xFA, CHR 0xFB, CHR 0xFC, CHR 0xFD, CHR 0xFE]"

definition word_char :: "char \<Rightarrow> bool" where
  \<comment> \<open>the class \<^verbatim>\<open>\w\<close>\<close>
  "word_char c \<longleftrightarrow>
     c \<in> set ''abcdefghijklmnopqrstuvwxyzABCDEFGHIJKLMNOPQRSTUVWXYZ0123456789_''
     \<or> c \<in> set latin1_word_chars"

definition space_char :: "char \<Rightarrow> bool" where
  \<comment> \<open>the class \<^verbatim>\<open>\s\<close>, which is also what \<^verbatim>\<open>str.strip\<close> removes: code points 9 to 13,
      28 to 32, 133 (next line) and 160 (no-break space)\<close>
  "space_char c \<longleftrightarrow>
     c \<in> set [CHR 0x09, CHR 0x0A, CHR 0x0B, CHR 0x0C, CHR 0x0D,
              CHR 0x1C, CHR 0x1D, CHR 0x1E, CHR 0x1F, CHR 0x20, CHR 0x85, CHR 0xA0]"

definition lower_char :: "char \<Rightarrow> char" where
  \<comment> \<open>case folding of \<^verbatim>\<open>re.IGNORECASE\<close>\<close>
  "lower_char c =
     (case map_of (zip (''ABCDEFGHIJKLMNOPQRSTUVWXYZ'' @ latin1_upper)
                       (''abcdefghijklmnopqrstuvwxyz'' @ latin1_lower)) c of
        Some l \<Rightarrow> l
      | None \<Rightarrow> c)"

definition at_boundary :: "bool \<Rightarrow> string \<Rightarrow> bool" where
  \<comment> \<open>\<^verbatim>\<open>\b\<close> between a previous character (\<open>pw\<close>: it exists and is a word character)
      and the rest of the subject\<close>
  "at_boundary pw rest \<longleftrightarrow> pw \<noteq> (case rest of [] \<Rightarrow> False | c # _ \<Rightarrow> word_char c)"

definition literal_at :: "string \<Rightarrow> string \<Rightarrow> bool" where
  \<comment> \<open>the escaped label matches at the head of \<open>rest\<close>, ignoring case\<close>
  "literal_at lab rest \<longleftrightarrow>
     length lab \<le> length rest \<and> map lower_char (take (length lab) rest) = map lower_char lab"

definition whole_word_at :: "string \<Rightarrow> bool \<Rightarrow> string \<Rightarrow> bool" where
  \<comment> \<open>the pattern \<^verbatim>\<open>r'\b' + re.escape(short_name) + r'\b'\<close> matches at the head of \<open>rest\<close>\<close>
  "whole_word_at lab pw rest \<longleftrightarrow>
     at_boundary pw rest \<and> literal_at lab rest \<and>
     at_boundary (if lab = [] then pw else word_char (last (take (length lab) rest)))
       (drop (length lab) rest)"

function re_sub_from :: "string \<Rightarrow> string \<Rightarrow> bool \<Rightarrow> string \<Rightarrow> string" where
  "re_sub_from lab repl pw [] = (if whole_word_at lab pw [] then repl else [])"
| "re_sub_from lab repl pw (c # cs) =
     (if whole_word_at lab pw (c # cs) then
        (if lab = [] then repl @ c # re_sub_from lab repl (word_char c) cs
         else repl @ re_sub_from lab repl (word_char (last (take (length lab) (c # cs))))
                       (drop (length lab) (c # cs)))
      else c # re_sub_from lab repl (word_char c) cs)"
  by pat_completeness auto
termination
  by (relation "measure (\<lambda>(lab, repl, pw, s). length s)") auto

definition re_sub_word :: "string \<Rightarrow> string \<Rightarrow> string \<Rightarrow> string" where
  \<comment> \<open>\<^verbatim>\<open>re.sub(pattern, technical_name, converted_formula, flags=re.IGNORECASE)\<close>:
      leftmost matches, not overlapping, the replaced text never scanned again\<close>
  "re_sub_word lab repl s = re_sub_from lab repl False s"

section \<open>Formula translator\<close>

text \<open>
  The alias map is a Python dict from short labels to column identifiers: an association
  list in insertion order. \<^verbatim>\<open>sorted(..., key=lambda x: len(x[0]), reverse=True)\<close> is
  stable, so labels of one length keep that order.
\<close>

type_synonym alias_map = "(string \<times> string) list"

definition sorted_short_names :: "alias_map \<Rightarrow> alias_map" where
  "sorted_short_names m = sort_key (\<lambda>x. - int (length (fst x))) m"

definition convert_short_names_to_technical :: "string \<Rightarrow> alias_map \<Rightarrow> string" where
  "convert_short_names_to_technical formula short_to_technical_map =
     foldl (\<lambda>converted (short_name, technical_name). re_sub_word short_name technical_name converted)
       formula (sorted_short_names short_to_technical_map)"

section \<open>Column alias registry\<close>

text \<open>
  \<^verbatim>\<open>COLUMN_MAPPING\<close> of \<^verbatim>\<open>column_mapping.py\<close>, with the \<^verbatim>\<open>short_name\<close> of every entry
  (the descriptions play no part in the formula pipeline).
\<close>

definition COLUMN_MAPPING :: "(string \<times> string) list" where
  "COLUMN_MAPPING =
     [(''As_of_Date_In_Form_YYMMDD'', ''Date''),
      (''Report_Date_as_MM_DD_YYYY'', ''Report Date''),
      (''CFTC_Contract_Market_Code'', ''Market Code''),
      (''CFTC_Commodity_Code'', ''Commodity Code''),
      (''Contract_Units'', ''Contract Units''),
      (''Open_Interest_All'', ''Open Interest''),
      (''Prod_Merc_Positions_Long_ALL'', ''Prod/Merc Long''),
      (''Prod_Merc_Positions_Short_ALL'', ''Prod/Merc Short''),
      (''Swap_Positions_Long_All'', ''Swap Long''),
      (''Swap__Positions_Short_All'', ''Swap Short''),
      (''Swap__Positions_Spread_All'', ''Swap Spread''),
      (''M_Money_Positions_Long_ALL'', ''MM Long''),
      (''M_Money_Positions_Short_ALL'', ''MM Short''),
      (''M_Money_Positions_Spread_ALL'', ''MM Spread''),
      (''Other_Rept_Positions_Long_ALL'', ''Other Rept Long''),
      (''Other_Rept_Positions_Short_ALL'', ''Other Rept Short''),
      (''Other_Rept_Positions_Spread_ALL'', ''Other Rept Spread''),
      (''Tot_Rept_Positions_Long_All'', ''Total Rept Long''),
      (''Tot_Rept_Positions_Short_All'', ''Total Rept Short''),
      (''NonRept_Positions_Long_All'', ''Non-Rept Long''),
      (''NonRept_Positions_Short_All'', ''Non-Rept Short''),
      (''Pct_of_OI_Prod_Merc_Long_All'', ''% OI Prod/Merc Long''),
      (''Pct_of_OI_Prod_Merc_Short_All'', ''% OI Prod/Merc Short''),
      (''Pct_of_OI_Swap_Long_All'', ''% OI Swap Long''),
      (''Pct_of_OI_Swap_Short_All'', ''% OI Swap Short''),
      (''Pct_of_OI_M_Money_Long_All'', ''% OI MM Long''),
      (''Pct_of_OI_M_Money_Short_All'', ''% OI MM Short''),
      (''Pct_of_OI_Tot_Rept_Long_All'', ''% OI Total Rept Long''),
      (''Pct_of_OI_Tot_Rept_Short_All'', ''% OI Total Rept Short'')]"

definition get_short_name :: "string \<Rightarrow> string" where
  "get_short_name column_name =
     (case map_of COLUMN_MAPPING column_name of Some short \<Rightarrow> short | None \<Rightarrow> column_name)"

text \<open>
  The loop of \<^verbatim>\<open>app.py\<close> that fills \<^verbatim>\<open>short_to_technical\<close>: a later column with the
  same short name overwrites the identifier and keeps the key's place in the dict.
\<close>

definition short_to_technical :: "string list \<Rightarrow> alias_map" where
  "short_to_technical numeric_columns =
     foldl (\<lambda>m col. AList.update (get_short_name col) col m) [] numeric_columns"

section \<open>Formula validator and evaluator\<close>

definition strip :: "string \<Rightarrow> string" where
  \<comment> \<open>\<^verbatim>\<open>str.strip()\<close>\<close>
  "strip s = rev (dropWhile space_char (rev (dropWhile space_char s)))"

definition allowed_chars :: string where
  "allowed_chars = ''+-*/()[].,0123456789_abcdefghijklmnopqrstuvwxyzABCDEFGHIJKLMNOPQRSTUVWXYZ ''"

definition ident_start :: "char \<Rightarrow> bool" where
  \<comment> \<open>the class \<^verbatim>\<open>[A-Za-z_]\<close>\<close>
  "ident_start c \<longleftrightarrow> c \<in> set ''ABCDEFGHIJKLMNOPQRSTUVWXYZabcdefghijklmnopqrstuvwxyz_''"

definition ident_char :: "char \<Rightarrow> bool" where
  \<comment> \<open>the class \<^verbatim>\<open>[A-Za-z0-9_]\<close>\<close>
  "ident_char c \<longleftrightarrow>
     c \<in> set ''ABCDEFGHIJKLMNOPQRSTUVWXYZabcdefghijklmnopqrstuvwxyz0123456789_''"

text \<open>
  \<^verbatim>\<open>re.findall(r'\b[A-Za-z_][A-Za-z0-9_]*\b', formula)\<close>. A match starts where the previous
  character is no word character and the current one is in \<^verbatim>\<open>[A-Za-z_]\<close>. The star is
  greedy; the closing \<^verbatim>\<open>\b\<close> holds nowhere inside the run of \<^verbatim>\<open>[A-Za-z0-9_]\<close>, so the
  match is the whole run when \<^verbatim>\<open>\b\<close> holds at its end, and there is no match at any
  position of the run when a word character outside the class follows it. The search
  resumes after the run.
\<close>

function findall_from :: "bool \<Rightarrow> string \<Rightarrow> string list" where
  "findall_from pw [] = []"
| "findall_from pw (c # cs) =
     (if \<not> pw \<and> ident_start c
      then (if at_boundary True (dropWhile ident_char cs)
            then [c # takeWhile ident_char cs] else [])
           @ findall_from True (dropWhile ident_char cs)
      else findall_from (word_char c) cs)"
  by pat_completeness auto
termination
  by (relation "measure (\<lambda>(pw, s). length s)") (auto simp: length_dropWhile_le less_Suc_eq_le)

definition findall_identifiers :: "string \<Rightarrow> string list" where
  "findall_identifiers formula = findall_from False formula"

text \<open>
  \<^verbatim>\<open>re.sub(r'\s*([+\-*/])\s*', r'\1', formula)\<close>: a match is a run of white space, one
  operator and a run of white space, both runs as long as possible; it is replaced by the
  operator.
\<close>

function strip_operator_spaces :: "string \<Rightarrow> string" where
  "strip_operator_spaces [] = []"
| "strip_operator_spaces (c # cs) =
     (case dropWhile space_char (c # cs) of
        [] \<Rightarrow> c # strip_operator_spaces cs
      | d # ds \<Rightarrow>
          if d \<in> set ''+-*/'' then d # strip_operator_spaces (dropWhile space_char ds)
          else c # strip_operator_spaces cs)"
  by pat_completeness auto
termination
proof (relation "measure length", goal_cases)
  case 1
  show ?case by simp
next
  case (2 c cs)
  show ?case by simp
next
  case (3 c cs d ds)
  have "length (d # ds) \<le> length (c # cs)"
    using length_dropWhile_le [of space_char "c # cs"] 3(1) by simp
  moreover have "length (dropWhile space_char ds) \<le> length ds"
    by (rule length_dropWhile_le)
  ultimately show ?case by simp
next
  case (4 c cs d ds)
  show ?case by simp
qed

fun join :: "string \<Rightarrow> string list \<Rightarrow> string" where
  \<comment> \<open>\<^verbatim>\<open>sep.join(items)\<close>\<close>
  "join sep [] = []"
| "join sep [x] = x"
| "join sep (x # y # ys) = x @ sep @ join sep (y # ys)"

type_synonym timestamp = int

text \<open>
  A positioning dataset: its column labels and its rows. Of a row the model keeps the
  report date (\<open>None\<close> is \<^verbatim>\<open>NaT\<close>) and, as one value, all its other cells.
\<close>

record 'c cot_row =
  As_of_Date_In_Form_YYMMDD :: "timestamp option"
  cells :: 'c

record 'c dataframe =
  columns :: "string list"
  rows :: "'c cot_row list"

text \<open>
  \<^verbatim>\<open>data.eval(formula)\<close> is pandas' evaluator, taken as a parameter \<open>pd_eval\<close>: it gives
  \<open>Inr\<close> of the value of the expression or \<open>Inl\<close> of the text of the exception it raises.
\<close>

definition evaluate_formula ::
  "('c dataframe \<Rightarrow> string \<Rightarrow> string + 'r) \<Rightarrow> string \<Rightarrow> 'c dataframe \<Rightarrow> alias_map
     \<Rightarrow> 'r option \<times> string option" where
  "evaluate_formula pd_eval formula data short_to_technical_map =
     (if formula = [] \<or> strip formula = [] then (None, None)
      else
        let original_formula = strip formula;
            formula = convert_short_names_to_technical original_formula short_to_technical_map
        in
          if \<not> list_all (\<lambda>c. c \<in> set allowed_chars) formula
          then (None, Some ''Invalid characters in formula'')
          else
            let potential_columns = findall_identifiers formula;
                missing_columns = filter (\<lambda>col. col \<notin> set (columns data)) potential_columns;
                actual_missing =
                  filter (\<lambda>col. col \<notin> set [''min'', ''max'', ''sum'', ''abs'', ''round''])
                    missing_columns
            in
              if missing_columns \<noteq> [] \<and> actual_missing \<noteq> []
              then (None, Some (''Columns not found: '' @ join '', '' actual_missing))
              else
                (case pd_eval data (strip_operator_spaces formula) of
                   Inr result \<Rightarrow> (Some result, None)
                 | Inl e \<Rightarrow>
                     (None, Some (''Formula error: '' @ e @
                        ''. Make sure to use proper column names and operators (+, -, *, /)''))))"

section \<open>Multi-series chart composer\<close>

text \<open>
  One \<^verbatim>\<open>go.Scatter\<close> trace: its legend name, its values (a formula result or the column
  \<^verbatim>\<open>filtered_data[col]\<close>), the fixed colour of a formula trace and its y-axis. Every trace
  has the dates of the filtered dataset as x values.
\<close>

datatype yaxis = Y | Y2

datatype 'r ydata = Formula_series 'r | Column_series string

record 'r trace =
  trace_name :: string
  trace_y :: "'r ydata"
  trace_color :: "string option"
  trace_yaxis :: yaxis

datatype 'r chart_output =
    Figure "'r trace list" "string list"  \<comment> \<open>the chart, then the \<^verbatim>\<open>st.error\<close> messages under it\<close>
  | Info_prompt string  \<comment> \<open>\<^verbatim>\<open>st.info\<close>, no chart\<close>

definition formula_slot ::
  "('c dataframe \<Rightarrow> string \<Rightarrow> string + 'r) \<Rightarrow> string \<Rightarrow> 'c dataframe \<Rightarrow> alias_map
     \<Rightarrow> 'r option \<times> string option" where
  \<comment> \<open>the result and the error of one axis: \<^verbatim>\<open>if left_formula: ... if error: ... else: ...\<close>\<close>
  "formula_slot pd_eval formula data m =
     (if formula \<noteq> [] then
        (case evaluate_formula pd_eval formula data m of
           (result, error) \<Rightarrow>
             if error \<noteq> None \<and> error \<noteq> Some [] then (None, error) else (result, None))
      else (None, None))"

definition formula_trace :: "string \<Rightarrow> string \<Rightarrow> yaxis \<Rightarrow> 'r option \<Rightarrow> 'r trace list" where
  "formula_trace formula colour ax result =
     (case result of
        None \<Rightarrow> []
      | Some r \<Rightarrow>
          [\<lparr>trace_name = ''Formula: '' @ formula, trace_y = Formula_series r,
            trace_color = Some colour, trace_yaxis = ax\<rparr>])"

definition column_trace :: "yaxis \<Rightarrow> string \<Rightarrow> 'r trace" where
  "column_trace ax col =
     \<lparr>trace_name = get_short_name col, trace_y = Column_series col,
      trace_color = None, trace_yaxis = ax\<rparr>"

definition error_line :: "string \<Rightarrow> string option \<Rightarrow> string list" where
  \<comment> \<open>\<^verbatim>\<open>if left_formula_error: st.error(f"Left axis formula error: {left_formula_error}")\<close>\<close>
  "error_line prefix error =
     (case error of None \<Rightarrow> [] | Some e \<Rightarrow> if e = [] then [] else [prefix @ e])"

definition positioning_chart ::
  "('c dataframe \<Rightarrow> string \<Rightarrow> string + 'r) \<Rightarrow> string \<Rightarrow> string \<Rightarrow> string list \<Rightarrow> string list
     \<Rightarrow> 'c dataframe \<Rightarrow> alias_map \<Rightarrow> 'r chart_output" where
  "positioning_chart pd_eval left_formula right_formula left_axis_columns right_axis_columns
       filtered_data m =
     (let (left_formula_result, left_formula_error) =
            formula_slot pd_eval left_formula filtered_data m;
          (right_formula_result, right_formula_error) =
            formula_slot pd_eval right_formula filtered_data m;
          has_left_data = (left_axis_columns \<noteq> [] \<or> left_formula_result \<noteq> None);
          has_right_data = (right_axis_columns \<noteq> [] \<or> right_formula_result \<noteq> None)
      in
        if has_left_data \<or> has_right_data then
          Figure
            (formula_trace left_formula ''#1f77b4'' Y left_formula_result
             @ map (column_trace Y) left_axis_columns
             @ formula_trace right_formula ''#ff7f0e'' Y2 right_formula_result
             @ map (column_trace Y2) right_axis_columns)
            (error_line ''Left axis formula error: '' left_formula_error
             @ error_line ''Right axis formula error: '' right_formula_error)
        else Info_prompt ''Select columns or enter formulas in the sidebar to visualize'')"

section \<open>Price cache\<close>

text \<open>
  Price frames have the columns that \<^verbatim>\<open>fetch_historical_prices\<close> makes of a price history
  (\<^verbatim>\<open>DATE\<close>, \<^verbatim>\<open>OPEN\<close>, \<^verbatim>\<open>HIGH\<close>, \<^verbatim>\<open>LOW\<close>, \<^verbatim>\<open>CLOSE\<close>, \<^verbatim>\<open>VOLUME\<close>, ...). Of a row the model
  keeps the date (\<open>None\<close> is \<^verbatim>\<open>NaT\<close>) and the closing price; a frame is the
  list of its rows, the empty frame the empty list, and the tests \<^verbatim>\<open>'DATE' in columns\<close>
  and \<^verbatim>\<open>'CLOSE' in columns\<close> hold for every frame that has rows.

  The table \<^verbatim>\<open>commodity_prices\<close> is \<open>None\<close> while it does not exist; a stored row is a
  price row with its \<^verbatim>\<open>Commodity_Name\<close>.
\<close>

record 'p price_row =
  DATE :: "timestamp option"
  CLOSE :: 'p

type_synonym 'p price_frame = "'p price_row list"

type_synonym 'p price_table = "(string \<times> 'p price_row) list option"

datatype db_error = OperationalError string

fun save_frames :: "(string \<times> 'p price_frame) list \<Rightarrow> 'p price_table \<Rightarrow> 'p price_table" where
  \<comment> \<open>the loop over \<^verbatim>\<open>prices_dict.items()\<close>; \<^verbatim>\<open>to_sql(..., if_exists='append')\<close> creates the
      table when it is missing and adds the rows after the stored ones\<close>
  "save_frames [] table = table"
| "save_frames ((commodity_name, df) # rest) table =
     (if df = [] then save_frames rest table
      else save_frames rest
             (Some ((case table of None \<Rightarrow> [] | Some stored \<Rightarrow> stored)
                    @ map (Pair commodity_name) df)))"

definition save_prices_to_database ::
  "(string \<times> 'p price_frame) list \<Rightarrow> 'p price_table \<Rightarrow> db_error + 'p price_table" where
  \<comment> \<open>after the loop, \<^verbatim>\<open>CREATE INDEX IF NOT EXISTS ... ON commodity_prices\<close> fails when no
      frame had rows and the table is still missing\<close>
  "save_prices_to_database prices_dict table =
     (case save_frames prices_dict table of
        None \<Rightarrow> Inl (OperationalError ''no such table: main.commodity_prices'')
      | Some stored \<Rightarrow> Inr (Some stored))"

definition get_commodity_prices_from_db :: "string option \<Rightarrow> 'p price_table \<Rightarrow> 'p price_frame" where
  \<comment> \<open>\<^verbatim>\<open>ORDER BY DATE\<close> and \<^verbatim>\<open>ORDER BY Commodity_Name, DATE\<close>, nulls first; rows that compare
      equal stay in the order of storage\<close>
  "get_commodity_prices_from_db commodity_name table =
     (case table of
        None \<Rightarrow> []
      | Some stored \<Rightarrow>
          (case commodity_name of
             Some name \<Rightarrow>
               if name \<noteq> [] then sort_key DATE (map snd (filter (\<lambda>r. fst r = name) stored))
               else map snd (sort_key (\<lambda>r. (fst r, DATE (snd r))) stored)
           | None \<Rightarrow> map snd (sort_key (\<lambda>r. (fst r, DATE (snd r))) stored)))"

definition stored_rows :: "'p price_table \<Rightarrow> (string \<times> 'p price_row) list" where
  \<comment> \<open>the rows of the table, none while it does not exist\<close>
  "stored_rows table = (case table of None \<Rightarrow> [] | Some stored \<Rightarrow> stored)"

section \<open>Cross-source temporal aligner and the price panel\<close>

datatype date_selection =
    Date_pair timestamp timestamp  \<comment> \<open>\<^verbatim>\<open>st.date_input\<close> gave a tuple of two dates\<close>
  | Date_other  \<comment> \<open>anything else, as while the second date is not picked yet\<close>

definition in_window :: "timestamp \<Rightarrow> timestamp \<Rightarrow> timestamp option \<Rightarrow> bool" where
  \<comment> \<open>\<^verbatim>\<open>(col >= pd.Timestamp(date_range[0])) & (col <= pd.Timestamp(date_range[1]))\<close> at one
      row; a comparison with \<^verbatim>\<open>NaT\<close> is false\<close>
  "in_window d0 d1 t = (case t of None \<Rightarrow> False | Some t' \<Rightarrow> d0 \<le> t' \<and> t' \<le> d1)"

definition filter_by_date :: "date_selection \<Rightarrow> 'c dataframe \<Rightarrow> 'c dataframe" where
  "filter_by_date date_range data =
     (case date_range of
        Date_pair d0 d1 \<Rightarrow>
          data\<lparr>rows := filter (\<lambda>r. in_window d0 d1 (As_of_Date_In_Form_YYMMDD r)) (rows data)\<rparr>
      | Date_other \<Rightarrow> data)"

primrec dropna :: "'a option list \<Rightarrow> 'a list" where
  "dropna [] = []"
| "dropna (x # xs) = (case x of None \<Rightarrow> dropna xs | Some v \<Rightarrow> v # dropna xs)"

definition date_min :: "timestamp option list \<Rightarrow> timestamp option" where
  \<comment> \<open>\<^verbatim>\<open>Series.min()\<close>: the least date that is not \<^verbatim>\<open>NaT\<close>, \<^verbatim>\<open>NaT\<close> when there is none\<close>
  "date_min ds = (case dropna ds of [] \<Rightarrow> None | t # ts \<Rightarrow> Some (fold min ts t))"

definition date_max :: "timestamp option list \<Rightarrow> timestamp option" where
  "date_max ds = (case dropna ds of [] \<Rightarrow> None | t # ts \<Rightarrow> Some (fold max ts t))"

definition cot_dates :: "'c dataframe \<Rightarrow> timestamp option list" where
  \<comment> \<open>\<^verbatim>\<open>filtered_data['As_of_Date_In_Form_YYMMDD']\<close>\<close>
  "cot_dates data = map As_of_Date_In_Form_YYMMDD (rows data)"

definition price_data_filtered :: "date_selection \<Rightarrow> 'p price_frame \<Rightarrow> 'p price_frame" where
  "price_data_filtered date_range price_data =
     (case date_range of
        Date_pair d0 d1 \<Rightarrow> filter (\<lambda>r. in_window d0 d1 (DATE r)) price_data
      | Date_other \<Rightarrow> price_data)"

record price_mapping =
  ticker_symbol :: "string option"
  ticker_type :: "string option"
  verified :: bool

datatype fetch_failure =
    NaT_strftime  \<comment> \<open>\<^verbatim>\<open>ValueError\<close>: \<^verbatim>\<open>strftime\<close> of \<^verbatim>\<open>NaT\<close>\<close>
  | Save_failed db_error

datatype 'p price_widget =
    Ticker_caption bool string "string option"
  | Fetch_error string fetch_failure
      \<comment> \<open>\<^verbatim>\<open>st.error(f"Could not fetch price data for ticker {ticker}: {str(e)}")\<close>\<close>
  | Price_chart "'p price_frame" "timestamp option" "timestamp option"
      \<comment> \<open>the rows of the \<^verbatim>\<open>Close Price\<close> trace and the two ends of \<^verbatim>\<open>xaxis.range\<close>; the
          four metrics under the chart are not modelled\<close>
  | Price_info string

text \<open>
  The cache-miss branch. \<^verbatim>\<open>fetch_historical_prices\<close> is the external price source, taken
  as a parameter \<open>fetch\<close> of the ticker and the two ends of the date range; it gives the
  empty frame on any failure. The branch gives the frame to display, the table and the
  error message when the \<^verbatim>\<open>try\<close> block raised.
\<close>

definition fetch_and_cache ::
  "(string \<Rightarrow> timestamp \<Rightarrow> timestamp \<Rightarrow> 'p price_frame) \<Rightarrow> string \<Rightarrow> string \<Rightarrow> 'c dataframe
     \<Rightarrow> 'p price_table \<Rightarrow> 'p price_frame \<times> 'p price_table \<times> 'p price_widget list" where
  "fetch_and_cache fetch ticker selected_commodity filtered_data table =
     (case (date_min (cot_dates filtered_data), date_max (cot_dates filtered_data)) of
        (Some price_start, Some price_end) \<Rightarrow>
          (let price_data = fetch ticker price_start price_end in
             if price_data \<noteq> [] then
               (case save_prices_to_database [(selected_commodity, price_data)] table of
                  Inr table' \<Rightarrow> (price_data, table', [])
                | Inl e \<Rightarrow> (price_data, table, [Fetch_error ticker (Save_failed e)]))
             else (price_data, table, []))
      | _ \<Rightarrow> ([], table, [Fetch_error ticker NaT_strftime]))"

definition price_display :: "date_selection \<Rightarrow> 'c dataframe \<Rightarrow> 'p price_frame \<Rightarrow> 'p price_widget" where
  "price_display date_range filtered_data price_data =
     (if price_data \<noteq> [] then
        (let shown = price_data_filtered date_range price_data in
           if shown \<noteq> [] then
             Price_chart shown (date_min (cot_dates filtered_data))
               (date_max (cot_dates filtered_data))
           else Price_info ''Price data available but no data for selected date range'')
      else Price_info
        ''No price data available. The ticker may not be valid or Yahoo Finance API may be unavailable.'')"

definition mapped_ticker :: "price_mapping option \<Rightarrow> (price_mapping \<times> string) option" where
  \<comment> \<open>\<^verbatim>\<open>if price_mapping and price_mapping['ticker_symbol']\<close>\<close>
  "mapped_ticker price_mapping =
     (case price_mapping of
        None \<Rightarrow> None
      | Some pm \<Rightarrow>
          (case ticker_symbol pm of
             None \<Rightarrow> None
           | Some ticker \<Rightarrow> if ticker = [] then None else Some (pm, ticker)))"

definition price_panel ::
  "(string \<Rightarrow> timestamp \<Rightarrow> timestamp \<Rightarrow> 'p price_frame) \<Rightarrow> price_mapping option \<Rightarrow> string
     \<Rightarrow> date_selection \<Rightarrow> 'c dataframe \<Rightarrow> 'p price_table
     \<Rightarrow> 'p price_widget list \<times> 'p price_table" where
  "price_panel fetch price_mapping selected_commodity date_range filtered_data table =
     (case mapped_ticker price_mapping of
        None \<Rightarrow>
          ([Price_info
              ''No price mapping found for this commodity. Price mappings are managed in the backend.''],
           table)
      | Some (pm, ticker) \<Rightarrow>
          (let cached = get_commodity_prices_from_db (Some selected_commodity) table;
               (price_data, table', errors) =
                 (if cached = []
                  then fetch_and_cache fetch ticker selected_commodity filtered_data table
                  else (cached, table, []))
           in (Ticker_caption (verified pm) ticker (ticker_type pm) # errors
                 @ [price_display date_range filtered_data price_data],
               table')))"

section \<open>The visualization tab for one selected commodity\<close>

datatype ('r, 'p) page =
    Page "'r chart_output" "'p price_widget list"
  | No_data_warning

datatype app_error = ValueError_NaT_strftime

text \<open>
  The body of \<^verbatim>\<open>if selected_commodity:\<close>. The caption with the first and last date of the
  filtered rows raises when there is no such date; the widgets between it and the chart
  give the inputs of the chart and are parameters here.
\<close>

definition visualization ::
  "('c dataframe \<Rightarrow> string \<Rightarrow> string + 'r) \<Rightarrow> (string \<Rightarrow> timestamp \<Rightarrow> timestamp \<Rightarrow> 'p price_frame)
     \<Rightarrow> price_mapping option \<Rightarrow> string \<Rightarrow> 'c dataframe \<Rightarrow> string list \<Rightarrow> date_selection
     \<Rightarrow> string \<Rightarrow> string \<Rightarrow> string list \<Rightarrow> string list \<Rightarrow> 'p price_table
     \<Rightarrow> app_error + ('r, 'p) page \<times> 'p price_table" where
  "visualization pd_eval fetch price_mapping selected_commodity data numeric_columns date_range
       left_formula right_formula left_axis_columns right_axis_columns table =
     (if rows data = [] \<or> columns data = [] then Inr (No_data_warning, table)
      else
        let filtered_data = filter_by_date date_range data in
          if date_min (cot_dates filtered_data) = None then Inl ValueError_NaT_strftime
          else
            let chart = positioning_chart pd_eval left_formula right_formula left_axis_columns
                          right_axis_columns filtered_data (short_to_technical numeric_columns);
                (widgets, table') = price_panel fetch price_mapping selected_commodity date_range
                                      filtered_data table
            in Inr (Page chart widgets, table'))"

text \<open>
  The tokens that \<^verbatim>\<open>evaluate_formula\<close> reports: \<^verbatim>\<open>actual_missing\<close> as a function of the
  dataset and the translated formula.
\<close>

definition offending :: "'c dataframe \<Rightarrow> string \<Rightarrow> string list" where
  "offending data tf =
     filter (\<lambda>col. col \<notin> set [''min'', ''max'', ''sum'', ''abs'', ''round''])
       (filter (\<lambda>col. col \<notin> set (columns data)) (findall_identifiers tf))"

text \<open>
  The character whitelist as the specification lists it, to be compared with
  \<open>allowed_chars\<close>: \<^verbatim>\<open>+-*/().,0-9A-Za-z_\<close> and the space.
\<close>

definition spec_whitelist :: string where
  "spec_whitelist = ''+-*/().,0123456789ABCDEFGHIJKLMNOPQRSTUVWXYZabcdefghijklmnopqrstuvwxyz_ ''"

text \<open>
  The identifier-like tokens as the specification describes them, to be compared with
  \<open>findall_identifiers\<close>: \<open>t\<close> is a token of \<open>s\<close> when it occurs in \<open>s\<close> as a run of
  letters, digits and underscores that starts with a letter or an underscore and has no
  such character next to it on either side. \<open>token_after\<close> is the same for a text that
  follows a character of which \<open>pw\<close> says whether it is a word character.
\<close>

definition token_after :: "bool \<Rightarrow> string \<Rightarrow> string \<Rightarrow> bool" where
  "token_after pw t s \<longleftrightarrow>
     (\<exists>pre post. s = pre @ t @ post \<and> t \<noteq> [] \<and> ident_start (hd t)
        \<and> list_all ident_char t
        \<and> (if pre = [] then \<not> pw else \<not> ident_char (last pre))
        \<and> (if post = [] then True else \<not> ident_char (hd post)))"

definition identifier_token_of :: "string \<Rightarrow> string \<Rightarrow> bool" where
  "identifier_token_of t s \<longleftrightarrow> token_after False t s"

section \<open>A small dataset for the worked examples\<close>

definition example_data :: "unit dataframe" where
  "example_data =
     \<lparr>columns = [''As_of_Date_In_Form_YYMMDD'', ''Commodity_Name'', ''Open_Interest_All'',
                 ''M_Money_Positions_Long_ALL''],
      rows = [\<lparr>As_of_Date_In_Form_YYMMDD = Some 3, cells = ()\<rparr>,
              \<lparr>As_of_Date_In_Form_YYMMDD = Some 24, cells = ()\<rparr>]\<rparr>"

definition example_aliases :: alias_map where
  \<comment> \<open>\<^verbatim>\<open>short_to_technical\<close> for the two numeric columns of \<open>example_data\<close>\<close>
  "example_aliases =
     [(''Open Interest'', ''Open_Interest_All''), (''MM Long'', ''M_Money_Positions_Long_ALL'')]"

definition echo_eval :: "unit dataframe \<Rightarrow> string \<Rightarrow> string + string" where
  \<comment> \<open>an evaluator for the examples: it succeeds and gives back the expression it was handed\<close>
  "echo_eval data expr = Inr expr"

definition failing_eval :: "unit dataframe \<Rightarrow> string \<Rightarrow> string + string" where
  \<comment> \<open>an evaluator for the examples: it raises on every expression\<close>
  "failing_eval data expr = Inl ''invalid syntax''"

definition example_prices :: "nat price_frame" where
  \<comment> \<open>daily prices around the two report dates of \<open>example_data\<close>\<close>
  "example_prices =
     [\<lparr>DATE = Some 2, CLOSE = 100\<rparr>, \<lparr>DATE = Some 3, CLOSE = 101\<rparr>,
      \<lparr>DATE = Some 10, CLOSE = 102\<rparr>, \<lparr>DATE = Some 25, CLOSE = 103\<rparr>,
      \<lparr>DATE = Some 40, CLOSE = 104\<rparr>]"

definition example_fetch :: "string \<Rightarrow> timestamp \<Rightarrow> timestamp \<Rightarrow> nat price_frame" where
  \<comment> \<open>a price source for the examples: the prices between the two dates it is asked for\<close>
  "example_fetch ticker start end =
     filter (\<lambda>r. in_window start end (DATE r)) example_prices"

definition example_mapping :: price_mapping where
  "example_mapping =
     \<lparr>ticker_symbol = Some ''GC=F'', ticker_type = Some ''futures'', verified = True\<rparr>"

section \<open>Properties of the formula translator\<close>

text \<open>Equations that decide a match from left to right, for evaluation.\<close>

lemma literal_at_simps:
  "literal_at [] rest = True"
  "literal_at (l # ls) [] = False"
  "literal_at (l # ls) (c # cs) = (if lower_char c = lower_char l then literal_at ls cs else False)"
  by (auto simp: literal_at_def)

lemma whole_word_at_eval:
  "whole_word_at lab pw rest =
     (if at_boundary pw rest then
        if literal_at lab rest then
          at_boundary (if lab = [] then pw else word_char (last (take (length lab) rest)))
            (drop (length lab) rest)
        else False
      else False)"
  by (simp add: whole_word_at_def)

text \<open>
  On a code point below 128 the two classes are the ASCII ones: the other word characters
  and capital letters all have the eighth bit set.
\<close>

lemma latin1_word_high: "c \<in> set latin1_word_chars \<Longrightarrow> digit7 c"
  by (auto simp: latin1_word_chars_def)

lemma latin1_upper_high: "c \<in> set latin1_upper \<Longrightarrow> digit7 c"
  by (auto simp: latin1_upper_def)

lemma word_char_ascii:
  "\<not> digit7 c \<Longrightarrow>
     word_char c \<longleftrightarrow> c \<in> set ''abcdefghijklmnopqrstuvwxyzABCDEFGHIJKLMNOPQRSTUVWXYZ0123456789_''"
  using latin1_word_high [of c] unfolding word_char_def by blast

lemma map_of_append_None: "map_of ys k = None \<Longrightarrow> map_of (xs @ ys) k = map_of xs k"
  by (simp add: map_add_def split: option.split)

lemma lower_char_ascii:
  assumes "\<not> digit7 c"
  shows "lower_char c =
     (case map_of (zip ''ABCDEFGHIJKLMNOPQRSTUVWXYZ'' ''abcdefghijklmnopqrstuvwxyz'') c of
        Some l \<Rightarrow> l
      | None \<Rightarrow> c)"
proof -
  have "c \<notin> set latin1_upper"
    using assms latin1_upper_high by blast
  moreover have "length latin1_upper = length latin1_lower"
    by (simp add: latin1_upper_def latin1_lower_def)
  ultimately have none: "map_of (zip latin1_upper latin1_lower) c = None"
    by (simp add: map_of_zip_is_None)
  have "zip (''ABCDEFGHIJKLMNOPQRSTUVWXYZ'' @ latin1_upper)
            (''abcdefghijklmnopqrstuvwxyz'' @ latin1_lower)
        = zip ''ABCDEFGHIJKLMNOPQRSTUVWXYZ'' ''abcdefghijklmnopqrstuvwxyz''
          @ zip latin1_upper latin1_lower"
    by (rule zip_append) simp
  then show ?thesis
    unfolding lower_char_def by (simp only: map_of_append_None [OF none])
qed

lemmas regex_eval = re_sub_word_def whole_word_at_eval literal_at_simps at_boundary_def
  word_char_ascii lower_char_ascii

text \<open>
  C1. With the aliases \<open>OI\<close> and \<open>% OI MM Long\<close>, the translator does take the long label
  first, but \<^verbatim>\<open>\b\<close> before \<open>%\<close> asks for a word character in front of it: at the start
  of the formula (and after a space) the long label is not found, so the formula leaves
  that pass unchanged and the pass for \<open>OI\<close> then substitutes inside the long label's
  text. The long label is not replaced as a unit.
\<close>

theorem convert_corrupts_long_label:
  "sorted_short_names
     [(''OI'', ''Open_Interest_All''), (''% OI MM Long'', ''Pct_of_OI_M_Money_Long_All'')]
     = [(''% OI MM Long'', ''Pct_of_OI_M_Money_Long_All''), (''OI'', ''Open_Interest_All'')]
   \<and> re_sub_word ''% OI MM Long'' ''Pct_of_OI_M_Money_Long_All'' ''% OI MM Long - OI''
     = ''% OI MM Long - OI''
   \<and> convert_short_names_to_technical ''% OI MM Long - OI''
       [(''OI'', ''Open_Interest_All''), (''% OI MM Long'', ''Pct_of_OI_M_Money_Long_All'')]
     = ''% Open_Interest_All MM Long - Open_Interest_All''"
  by (simp add: convert_short_names_to_technical_def sorted_short_names_def regex_eval)

text \<open>
  The same on the registry's own labels: the formula that the sidebar shows as its example
  for the right axis keeps its two \<open>% OI\<close> prefixes, and the shorter labels \<open>MM Long\<close> and
  \<open>MM Short\<close> are substituted inside the longer ones.
\<close>

lemma placeholder_formula_translation:
  "convert_short_names_to_technical ''% OI MM Long - % OI MM Short''
     [(''MM Long'', ''M_Money_Positions_Long_ALL''), (''MM Short'', ''M_Money_Positions_Short_ALL''),
      (''% OI MM Long'', ''Pct_of_OI_M_Money_Long_All''),
      (''% OI MM Short'', ''Pct_of_OI_M_Money_Short_All'')]
   = ''% OI M_Money_Positions_Long_ALL - % OI M_Money_Positions_Short_ALL''"
  by (simp add: convert_short_names_to_technical_def sorted_short_names_def regex_eval)

section \<open>Properties of the validator and the evaluator\<close>

lemma all_dropWhile_iff:
  "(\<forall>c\<in>set (dropWhile P s). P c) \<longleftrightarrow> (\<forall>c\<in>set s. P c)"
proof (induction s)
  case Nil
  show ?case by simp
next
  case (Cons a s)
  show ?case
  proof (cases "P a")
    case True
    with Cons show ?thesis by simp
  next
    case False
    then show ?thesis by auto
  qed
qed

lemma strip_eq_Nil_iff: "strip s = [] \<longleftrightarrow> (\<forall>c\<in>set s. space_char c)"
proof -
  have "strip s = [] \<longleftrightarrow> dropWhile space_char (rev (dropWhile space_char s)) = []"
    unfolding strip_def by (simp only: rev_is_Nil_conv)
  also have "\<dots> \<longleftrightarrow> (\<forall>c\<in>set (dropWhile space_char s). space_char c)"
    by (simp only: dropWhile_eq_Nil_conv set_rev)
  also have "\<dots> \<longleftrightarrow> (\<forall>c\<in>set s. space_char c)"
    by (rule all_dropWhile_iff)
  finally show ?thesis .
qed

lemma example_aliases_eq:
  "short_to_technical [''Open_Interest_All'', ''M_Money_Positions_Long_ALL''] = example_aliases"
  by (simp add: short_to_technical_def get_short_name_def COLUMN_MAPPING_def example_aliases_def)

lemma example_translation:
  "convert_short_names_to_technical ''mm long / Open Interest'' example_aliases
     = ''M_Money_Positions_Long_ALL / Open_Interest_All''"
  by (simp add: convert_short_names_to_technical_def sorted_short_names_def regex_eval
      example_aliases_def)

lemma example_strip: "strip '' mm long / Open Interest '' = ''mm long / Open Interest''"
  by (simp add: strip_def space_char_def)

lemma example_whitelist:
  "list_all (\<lambda>c. c \<in> set allowed_chars) ''M_Money_Positions_Long_ALL / Open_Interest_All''"
  by (simp add: allowed_chars_def)

lemma example_tokens:
  "findall_identifiers ''M_Money_Positions_Long_ALL / Open_Interest_All''
     = [''M_Money_Positions_Long_ALL'', ''Open_Interest_All'']"
  by (simp add: findall_identifiers_def ident_start_def ident_char_def word_char_ascii
      at_boundary_def)

lemma example_normalised:
  "strip_operator_spaces ''M_Money_Positions_Long_ALL / Open_Interest_All''
     = ''M_Money_Positions_Long_ALL/Open_Interest_All''"
  by (simp add: space_char_def)

lemma evaluate_formula_blank:
  "strip formula = [] \<Longrightarrow> evaluate_formula pd_eval formula data m = (None, None)"
  by (simp add: evaluate_formula_def)

lemma strip_nonempty: "strip formula \<noteq> [] \<Longrightarrow> formula \<noteq> []"
  by (auto simp: strip_def)

lemma evaluate_formula_invalid:
  assumes "strip formula \<noteq> []"
    and "\<not> list_all (\<lambda>c. c \<in> set allowed_chars) (convert_short_names_to_technical (strip formula) m)"
  shows "evaluate_formula pd_eval formula data m = (None, Some ''Invalid characters in formula'')"
  using assms strip_nonempty [OF assms(1)] by (simp add: evaluate_formula_def Let_def)

lemma evaluate_formula_missing:
  assumes "strip formula \<noteq> []"
    and "list_all (\<lambda>c. c \<in> set allowed_chars) (convert_short_names_to_technical (strip formula) m)"
    and "offending data (convert_short_names_to_technical (strip formula) m) \<noteq> []"
  shows "evaluate_formula pd_eval formula data m =
           (None, Some (''Columns not found: '' @
              join '', '' (offending data (convert_short_names_to_technical (strip formula) m))))"
proof -
  have "filter (\<lambda>col. col \<notin> set (columns data))
          (findall_identifiers (convert_short_names_to_technical (strip formula) m)) \<noteq> []"
  proof
    assume "filter (\<lambda>col. col \<notin> set (columns data))
          (findall_identifiers (convert_short_names_to_technical (strip formula) m)) = []"
    then have "offending data (convert_short_names_to_technical (strip formula) m) = []"
      unfolding offending_def by (simp only: filter.simps)
    with assms(3) show False by simp
  qed
  then show ?thesis
    using assms strip_nonempty [OF assms(1)]
    by (simp add: evaluate_formula_def Let_def offending_def)
qed

lemma evaluate_formula_checked:
  assumes "strip formula \<noteq> []"
    and "list_all (\<lambda>c. c \<in> set allowed_chars) (convert_short_names_to_technical (strip formula) m)"
    and "offending data (convert_short_names_to_technical (strip formula) m) = []"
  shows "evaluate_formula pd_eval formula data m =
           (case pd_eval data
                   (strip_operator_spaces (convert_short_names_to_technical (strip formula) m)) of
              Inr result \<Rightarrow> (Some result, None)
            | Inl e \<Rightarrow>
                (None, Some (''Formula error: '' @ e @
                   ''. Make sure to use proper column names and operators (+, -, *, /)'')))"
  using assms strip_nonempty [OF assms(1)]
  by (simp add: evaluate_formula_def Let_def offending_def)

lemma example_evaluation:
  "evaluate_formula echo_eval '' mm long / Open Interest '' example_data example_aliases
     = (Some ''M_Money_Positions_Long_ALL/Open_Interest_All'', None)"
proof -
  have "offending example_data ''M_Money_Positions_Long_ALL / Open_Interest_All'' = []"
    by (simp add: offending_def example_tokens example_data_def)
  then show ?thesis
    using evaluate_formula_checked [of "'' mm long / Open Interest ''" example_aliases example_data echo_eval]
      example_whitelist
    by (simp only: example_strip example_translation example_normalised echo_eval_def
        sum.case list.simps not_False_eq_True simp_thms)
qed

text \<open>
  C2 as stated fails on a blank formula: \<^verbatim>\<open>evaluate_formula\<close> returns \<^verbatim>\<open>(None, None)\<close> for
  a formula that is empty or all white space, so both results are empty. The call sites
  let a formula of spaces through, since \<^verbatim>\<open>if left_formula:\<close> only stops the empty string.
\<close>

theorem evaluate_formula_blank_counterexample:
  "evaluate_formula echo_eval ''   '' example_data example_aliases = (None, None)"
  by (simp add: evaluate_formula_def strip_def space_char_def)

text \<open>
  C2, amended. For a formula with at least one character that is no white space,
  \<^verbatim>\<open>evaluate_formula\<close> returns either a value with no error or no value with a non-empty
  error message, whatever the dataset, the alias map and the evaluator are; for a blank
  formula it returns neither.
\<close>

theorem evaluate_formula_one_of_two:
  "if \<forall>c\<in>set formula. space_char c
   then evaluate_formula pd_eval formula data m = (None, None)
   else (\<exists>series. evaluate_formula pd_eval formula data m = (Some series, None))
      \<or> (\<exists>message. message \<noteq> [] \<and> evaluate_formula pd_eval formula data m = (None, Some message))"
proof (cases "\<forall>c\<in>set formula. space_char c")
  case True
  then have "strip formula = []" by (simp add: strip_eq_Nil_iff)
  then show ?thesis by (simp only: if_P [OF True] evaluate_formula_blank)
next
  case False
  then have ne: "strip formula \<noteq> []" by (simp add: strip_eq_Nil_iff)
  let ?tf = "convert_short_names_to_technical (strip formula) m"
  consider (invalid) "\<not> list_all (\<lambda>c. c \<in> set allowed_chars) ?tf"
    | (missing) "list_all (\<lambda>c. c \<in> set allowed_chars) ?tf" "offending data ?tf \<noteq> []"
    | (checked) "list_all (\<lambda>c. c \<in> set allowed_chars) ?tf" "offending data ?tf = []"
    by blast
  then have "(\<exists>series. evaluate_formula pd_eval formula data m = (Some series, None))
      \<or> (\<exists>message. message \<noteq> [] \<and> evaluate_formula pd_eval formula data m = (None, Some message))"
  proof cases
    case invalid
    from evaluate_formula_invalid [OF ne invalid, where pd_eval = pd_eval and data = data]
    show ?thesis by simp
  next
    case missing
    from evaluate_formula_missing [OF ne missing, where pd_eval = pd_eval]
    show ?thesis by simp
  next
    case checked
    from evaluate_formula_checked [OF ne checked, where pd_eval = pd_eval] show ?thesis
      by (cases "pd_eval data (strip_operator_spaces ?tf)") simp_all
  qed
  then show ?thesis by (simp only: if_not_P [OF False])
qed

theorem evaluate_formula_one_of_two_witness:
  "\<not> (\<forall>c\<in>set '' mm long / Open Interest ''. space_char c)
   \<and> ((\<exists>series. evaluate_formula echo_eval '' mm long / Open Interest '' example_data example_aliases
          = (Some series, None))
      \<or> (\<exists>message. message \<noteq> [] \<and>
           evaluate_formula echo_eval '' mm long / Open Interest '' example_data example_aliases
             = (None, Some message)))"
proof -
  have "\<not> (\<forall>c\<in>set '' mm long / Open Interest ''. space_char c)"
    by (simp add: space_char_def)
  with evaluate_formula_one_of_two [of "'' mm long / Open Interest ''" echo_eval example_data example_aliases]
  show ?thesis by (simp only: if_False simp_thms)
qed

lemma whitelist_sets:
  "x \<in> set (A @ [l, r] @ B @ [u] @ L @ U @ [sp]) \<longleftrightarrow>
     x \<in> set (A @ B @ U @ L @ [u, sp]) \<or> x = l \<or> x = r"
  by auto

lemma allowed_chars_spec:
  "c \<in> set allowed_chars \<longleftrightarrow> c \<in> set spec_whitelist \<or> c = CHR ''['' \<or> c = CHR '']''"
proof -
  have "c \<in> set (''+-*/()'' @ [CHR ''['', CHR '']''] @ ''.,0123456789'' @ [CHR ''_'']
                  @ ''abcdefghijklmnopqrstuvwxyz'' @ ''ABCDEFGHIJKLMNOPQRSTUVWXYZ'' @ [CHR '' ''])
        \<longleftrightarrow> c \<in> set (''+-*/()'' @ ''.,0123456789'' @ ''ABCDEFGHIJKLMNOPQRSTUVWXYZ''
                    @ ''abcdefghijklmnopqrstuvwxyz'' @ [CHR ''_'', CHR '' ''])
            \<or> c = CHR ''['' \<or> c = CHR '']''"
    by (rule whitelist_sets)
  then show ?thesis
    unfolding allowed_chars_def spec_whitelist_def append.simps .
qed

lemma bracket_translation: "convert_short_names_to_technical ''[1]'' example_aliases = ''[1]''"
  by (simp add: convert_short_names_to_technical_def sorted_short_names_def regex_eval
      example_aliases_def)

lemma drop_table_translation:
  "convert_short_names_to_technical ''Open_Interest_All; DROP TABLE x'' example_aliases
     = ''Open_Interest_All; DROP TABLE x''"
  by (simp add: convert_short_names_to_technical_def sorted_short_names_def regex_eval
      example_aliases_def)

lemma bracket_strip: "strip ''[1]'' = ''[1]''"
  by (simp add: strip_def space_char_def)

lemma drop_table_strip:
  "strip ''Open_Interest_All; DROP TABLE x'' = ''Open_Interest_All; DROP TABLE x''"
  by (simp add: strip_def space_char_def)

text \<open>
  C4 as stated fails: \<open>allowed_chars\<close> also holds the two square brackets, which the
  specification's list does not. The formula \<open>[1]\<close> has a character outside that list and
  is not rejected with the "invalid characters" error, whether the evaluator then succeeds
  or raises.
\<close>

theorem whitelist_brackets_counterexample:
  "\<not> list_all (\<lambda>c. c \<in> set spec_whitelist)
        (convert_short_names_to_technical (strip ''[1]'') example_aliases)
   \<and> evaluate_formula echo_eval ''[1]'' example_data example_aliases = (Some ''[1]'', None)
   \<and> evaluate_formula failing_eval ''[1]'' example_data example_aliases
       \<noteq> (None, Some ''Invalid characters in formula'')"
proof -
  have ne: "strip ''[1]'' \<noteq> []"
    by (simp add: bracket_strip)
  have ok: "list_all (\<lambda>c. c \<in> set allowed_chars)
              (convert_short_names_to_technical (strip ''[1]'') example_aliases)"
    by (simp add: bracket_strip bracket_translation allowed_chars_def)
  have none: "offending example_data
                (convert_short_names_to_technical (strip ''[1]'') example_aliases) = []"
    by (simp add: bracket_strip bracket_translation offending_def findall_identifiers_def
        ident_start_def word_char_ascii)
  have "\<not> list_all (\<lambda>c. c \<in> set spec_whitelist)
          (convert_short_names_to_technical (strip ''[1]'') example_aliases)"
    by (simp add: bracket_strip bracket_translation spec_whitelist_def)
  moreover have "evaluate_formula echo_eval ''[1]'' example_data example_aliases
                   = (Some ''[1]'', None)"
    using evaluate_formula_checked [OF ne ok none, where pd_eval = echo_eval]
    by (simp add: bracket_strip bracket_translation echo_eval_def space_char_def)
  moreover have "evaluate_formula failing_eval ''[1]'' example_data example_aliases
                   \<noteq> (None, Some ''Invalid characters in formula'')"
    using evaluate_formula_checked [OF ne ok none, where pd_eval = failing_eval]
    by (simp add: failing_eval_def)
  ultimately show ?thesis by blast
qed

lemma invalid_characters_iff:
  assumes "strip formula \<noteq> []"
  shows "evaluate_formula pd_eval formula data m = (None, Some ''Invalid characters in formula'')
           \<longleftrightarrow> \<not> list_all (\<lambda>c. c \<in> set allowed_chars)
                   (convert_short_names_to_technical (strip formula) m)"
proof (cases "list_all (\<lambda>c. c \<in> set allowed_chars)
                (convert_short_names_to_technical (strip formula) m)")
  case False
  with evaluate_formula_invalid [OF assms False, where pd_eval = pd_eval and data = data]
  show ?thesis by simp
next
  case True
  let ?tf = "convert_short_names_to_technical (strip formula) m"
  have "evaluate_formula pd_eval formula data m \<noteq> (None, Some ''Invalid characters in formula'')"
  proof (cases "offending data ?tf = []")
    case False
    from evaluate_formula_missing [OF assms True False, where pd_eval = pd_eval]
    show ?thesis by simp
  next
    case none: True
    from evaluate_formula_checked [OF assms True none, where pd_eval = pd_eval]
    show ?thesis by (cases "pd_eval data (strip_operator_spaces ?tf)") simp_all
  qed
  with True show ?thesis by simp
qed

lemma drop_table_not_allowed:
  "\<not> list_all (\<lambda>c. c \<in> set allowed_chars)
        (convert_short_names_to_technical (strip ''Open_Interest_All; DROP TABLE x'')
           example_aliases)"
  by (simp add: drop_table_strip drop_table_translation allowed_chars_def)

lemma whitelist_iff:
  "list_all (\<lambda>c. c \<in> set allowed_chars) s \<longleftrightarrow>
     (\<forall>c\<in>set s. c \<in> set spec_whitelist \<or> c = CHR ''['' \<or> c = CHR '']'')"
  by (simp only: list_all_iff allowed_chars_spec)

text \<open>
  C4, amended. For a formula that is not blank, the translated formula is rejected with
  the "invalid characters" error exactly when one of its characters is outside
  \<^verbatim>\<open>+-*/()[].,0-9A-Za-z_\<close> and the space (the specification's list and the two square brackets);
  a rejection does not depend on the evaluator, which is not called. In particular
  \<open>Open_Interest_All; DROP TABLE x\<close> is rejected with that error.
\<close>

theorem whitelist_decides_invalid_characters:
  assumes "\<exists>c\<in>set formula. \<not> space_char c"
  shows "((\<forall>c\<in>set (convert_short_names_to_technical (strip formula) m).
             c \<in> set spec_whitelist \<or> c = CHR ''['' \<or> c = CHR '']'')
          \<longrightarrow> evaluate_formula (pd_eval :: 'c dataframe \<Rightarrow> string \<Rightarrow> string + 'r) formula data m
                \<noteq> (None, Some ''Invalid characters in formula''))
       \<and> (\<not> (\<forall>c\<in>set (convert_short_names_to_technical (strip formula) m).
                c \<in> set spec_whitelist \<or> c = CHR ''['' \<or> c = CHR '']'')
          \<longrightarrow> (\<forall>ev. evaluate_formula ev formula data m = evaluate_formula pd_eval formula data m)
              \<and> evaluate_formula pd_eval formula data m
                  = (None, Some ''Invalid characters in formula''))
       \<and> evaluate_formula pd_eval ''Open_Interest_All; DROP TABLE x'' data example_aliases
           = (None, Some ''Invalid characters in formula'')"
proof -
  let ?tf = "convert_short_names_to_technical (strip formula) m"
  let ?ok = "\<forall>c\<in>set ?tf. c \<in> set spec_whitelist \<or> c = CHR ''['' \<or> c = CHR '']''"
  have ne: "strip formula \<noteq> []"
    using assms by (simp add: strip_eq_Nil_iff)
  have accept: "evaluate_formula pd_eval formula data m
                  \<noteq> (None, Some ''Invalid characters in formula'')" if ?ok
    using that invalid_characters_iff [OF ne, of pd_eval data m]
    unfolding whitelist_iff by blast
  have reject: "evaluate_formula ev formula data m
                  = (None, Some ''Invalid characters in formula'')" if "\<not> ?ok"
    for ev :: "'c dataframe \<Rightarrow> string \<Rightarrow> string + 'r"
    using that invalid_characters_iff [OF ne, of ev data m]
    unfolding whitelist_iff by blast
  have ne': "strip ''Open_Interest_All; DROP TABLE x'' \<noteq> []"
    by (simp add: drop_table_strip)
  have ex: "evaluate_formula pd_eval ''Open_Interest_All; DROP TABLE x'' data example_aliases
              = (None, Some ''Invalid characters in formula'')"
    by (rule evaluate_formula_invalid [OF ne' drop_table_not_allowed])
  show ?thesis
  proof (intro conjI impI allI)
    assume ?ok
    then show "evaluate_formula pd_eval formula data m
                 \<noteq> (None, Some ''Invalid characters in formula'')"
      by (rule accept)
  next
    fix ev :: "'c dataframe \<Rightarrow> string \<Rightarrow> string + 'r"
    assume bad: "\<not> ?ok"
    show "evaluate_formula ev formula data m = evaluate_formula pd_eval formula data m"
      using reject [OF bad, of ev] reject [OF bad, of pd_eval] by (rule trans [OF _ sym])
  next
    assume "\<not> ?ok"
    then show "evaluate_formula pd_eval formula data m
                 = (None, Some ''Invalid characters in formula'')"
      by (rule reject)
  next
    show "evaluate_formula pd_eval ''Open_Interest_All; DROP TABLE x'' data example_aliases
            = (None, Some ''Invalid characters in formula'')"
      by (rule ex)
  qed
qed

theorem whitelist_decides_invalid_characters_witness:
  "(\<exists>c\<in>set ''Open_Interest_All; DROP TABLE x''. \<not> space_char c)
   \<and> \<not> (\<forall>c\<in>set (convert_short_names_to_technical (strip ''Open_Interest_All; DROP TABLE x'')
                      example_aliases).
            c \<in> set spec_whitelist \<or> c = CHR ''['' \<or> c = CHR '']'')
   \<and> evaluate_formula echo_eval ''Open_Interest_All; DROP TABLE x'' example_data example_aliases
       = (None, Some ''Invalid characters in formula'')"
proof -
  have a: "\<exists>c\<in>set ''Open_Interest_All; DROP TABLE x''. \<not> space_char c"
    by (simp add: space_char_def)
  have b: "\<not> (\<forall>c\<in>set (convert_short_names_to_technical
                          (strip ''Open_Interest_All; DROP TABLE x'') example_aliases).
                c \<in> set spec_whitelist \<or> c = CHR ''['' \<or> c = CHR '']'')"
    using drop_table_not_allowed unfolding whitelist_iff .
  from a b whitelist_decides_invalid_characters [OF a, of example_aliases echo_eval example_data]
  show ?thesis by blast
qed

section \<open>Properties of the chart composer\<close>

lemma formula_trace_empty_iff: "formula_trace formula colour ax result = [] \<longleftrightarrow> result = None"
  by (cases result) (simp_all add: formula_trace_def)

text \<open>
  C6. When neither axis has a selected column and neither axis has a formula result, the
  composer gives the informational prompt and no chart; in every other case it gives a
  chart, and that chart has at least one trace.
\<close>

theorem composer_nothing_to_render:
  "if left_axis_columns = [] \<and> right_axis_columns = []
      \<and> fst (formula_slot pd_eval left_formula data m) = None
      \<and> fst (formula_slot pd_eval right_formula data m) = None
   then positioning_chart pd_eval left_formula right_formula left_axis_columns
          right_axis_columns data m
        = Info_prompt ''Select columns or enter formulas in the sidebar to visualize''
   else \<exists>traces errors.
          positioning_chart pd_eval left_formula right_formula left_axis_columns
            right_axis_columns data m = Figure traces errors
          \<and> traces \<noteq> []"
proof -
  obtain lr le where l: "formula_slot pd_eval left_formula data m = (lr, le)"
    by (cases "formula_slot pd_eval left_formula data m")
  obtain rr re where r: "formula_slot pd_eval right_formula data m = (rr, re)"
    by (cases "formula_slot pd_eval right_formula data m")
  show ?thesis
    unfolding positioning_chart_def l r
    by (simp add: formula_trace_empty_iff) blast
qed

theorem composer_nothing_to_render_witness:
  "positioning_chart echo_eval [] [] [] [] example_data example_aliases
     = Info_prompt ''Select columns or enter formulas in the sidebar to visualize''
   \<and> (\<exists>traces errors.
         positioning_chart echo_eval [] [] [''Open_Interest_All''] [] example_data example_aliases
           = Figure traces errors \<and> traces \<noteq> [])"
  using composer_nothing_to_render [of "[]" "[]" echo_eval "[]" example_data example_aliases "[]"]
    composer_nothing_to_render [of "[''Open_Interest_All'']" "[]" echo_eval "[]" example_data example_aliases "[]"]
  by (simp add: formula_slot_def)

text \<open>
  The three shapes of a result, and what the call sites make of it: the per-axis result
  and error are those of \<^verbatim>\<open>evaluate_formula\<close>, which is not called for the empty string.
\<close>

lemma evaluate_formula_shape:
  "evaluate_formula pd_eval formula data m = (None, None)
   \<or> (\<exists>r. evaluate_formula pd_eval formula data m = (Some r, None))
   \<or> (\<exists>e. e \<noteq> [] \<and> evaluate_formula pd_eval formula data m = (None, Some e))"
proof (cases "strip formula = []")
  case True
  then show ?thesis by (simp add: evaluate_formula_blank)
next
  case ne: False
  let ?tf = "convert_short_names_to_technical (strip formula) m"
  show ?thesis
  proof (cases "list_all (\<lambda>c. c \<in> set allowed_chars) ?tf")
    case False
    from evaluate_formula_invalid [OF ne False, where pd_eval = pd_eval and data = data]
    show ?thesis by simp
  next
    case ok: True
    show ?thesis
    proof (cases "offending data ?tf = []")
      case False
      from evaluate_formula_missing [OF ne ok False, where pd_eval = pd_eval]
      show ?thesis by simp
    next
      case True
      from evaluate_formula_checked [OF ne ok True, where pd_eval = pd_eval]
      show ?thesis by (cases "pd_eval data (strip_operator_spaces ?tf)") simp_all
    qed
  qed
qed

lemma formula_slot_eq:
  "formula_slot pd_eval formula data m =
     (if formula = [] then (None, None) else evaluate_formula pd_eval formula data m)"
  using evaluate_formula_shape [of pd_eval formula data m]
  by (auto simp: formula_slot_def)

lemma unknown_column_strip: "strip ''NotARealColumn + 1'' = ''NotARealColumn + 1''"
  by (simp add: strip_def space_char_def)

lemma unknown_column_translation:
  "convert_short_names_to_technical ''NotARealColumn + 1'' example_aliases = ''NotARealColumn + 1''"
  by (simp add: convert_short_names_to_technical_def sorted_short_names_def regex_eval
      example_aliases_def)

lemma unknown_column_whitelist:
  "list_all (\<lambda>c. c \<in> set allowed_chars) ''NotARealColumn + 1''"
  by (simp add: allowed_chars_def)

lemma unknown_column_tokens: "findall_identifiers ''NotARealColumn + 1'' = [''NotARealColumn'']"
  by (simp add: findall_identifiers_def ident_start_def ident_char_def word_char_ascii
      at_boundary_def)

lemma unknown_column_offending:
  "offending example_data ''NotARealColumn + 1'' = [''NotARealColumn'']"
  by (simp add: offending_def unknown_column_tokens example_data_def)

lemma unknown_column_evaluation:
  "evaluate_formula pd_eval ''NotARealColumn + 1'' example_data example_aliases
     = (None, Some ''Columns not found: NotARealColumn'')"
proof -
  have ne: "strip ''NotARealColumn + 1'' \<noteq> []"
    by (simp add: unknown_column_strip)
  have ok: "list_all (\<lambda>c. c \<in> set allowed_chars)
              (convert_short_names_to_technical (strip ''NotARealColumn + 1'') example_aliases)"
    by (simp only: unknown_column_strip unknown_column_translation unknown_column_whitelist)
  have bad: "offending example_data
               (convert_short_names_to_technical (strip ''NotARealColumn + 1'') example_aliases)
             \<noteq> []"
    by (simp add: unknown_column_strip unknown_column_translation unknown_column_offending)
  show ?thesis
    using evaluate_formula_missing [OF ne ok bad, where pd_eval = pd_eval]
    by (simp add: unknown_column_strip unknown_column_translation unknown_column_offending)
qed

text \<open>
  C9. A formula error is shown only inside the branch that draws the chart. With the
  failing left formula \<open>NotARealColumn + 1\<close>, no selected column and no right formula,
  the left axis has its error, but the page shows the prompt alone: the error is not
  shown at all. As soon as the right axis has a column the chart is drawn, with that
  column and with the error under its own axis' name.
\<close>

theorem lone_formula_error_not_shown:
  "formula_slot echo_eval ''NotARealColumn + 1'' example_data example_aliases
     = (None, Some ''Columns not found: NotARealColumn'')
   \<and> positioning_chart echo_eval ''NotARealColumn + 1'' [] [] [] example_data example_aliases
     = Info_prompt ''Select columns or enter formulas in the sidebar to visualize''
   \<and> positioning_chart echo_eval ''NotARealColumn + 1'' [] [] [''Open_Interest_All'']
       example_data example_aliases
     = Figure [column_trace Y2 ''Open_Interest_All'']
         [''Left axis formula error: Columns not found: NotARealColumn'']"
proof -
  have l: "formula_slot echo_eval ''NotARealColumn + 1'' example_data example_aliases
             = (None, Some ''Columns not found: NotARealColumn'')"
    by (simp add: formula_slot_eq unknown_column_evaluation)
  have r: "formula_slot echo_eval [] example_data example_aliases = (None, None)"
    by (simp add: formula_slot_eq)
  show ?thesis
    unfolding positioning_chart_def l r
    by (simp add: formula_trace_def error_line_def)
qed

theorem lone_formula_error_not_shown_witness:
  "snd (formula_slot echo_eval ''NotARealColumn + 1'' example_data example_aliases)
     = Some ''Columns not found: NotARealColumn''
   \<and> positioning_chart echo_eval ''NotARealColumn + 1'' [] [] [] example_data example_aliases
     = Info_prompt ''Select columns or enter formulas in the sidebar to visualize''"
  using lone_formula_error_not_shown by simp

section \<open>Properties of the price cache and the price panel\<close>

lemma get_prices_missing_table: "get_commodity_prices_from_db commodity_name None = []"
  by (simp add: get_commodity_prices_from_db_def)

lemma save_one_frame:
  "df \<noteq> [] \<Longrightarrow>
     save_prices_to_database [(commodity_name, df)] table
       = Inr (Some ((case table of None \<Rightarrow> [] | Some stored \<Rightarrow> stored)
                     @ map (Pair commodity_name) df))"
  by (simp add: save_prices_to_database_def)

text \<open>
  C10. Reading the prices of a commodity from a database that has no table
  \<^verbatim>\<open>commodity_prices\<close> gives the empty frame. The price panel of a commodity with a
  mapped ticker then takes the fetch branch: it asks the price source for the ticker
  between the first and the last report date, displays what the source gave and stores
  it when it has rows.
\<close>

theorem missing_table_is_cache_miss:
  assumes "mapped_ticker price_mapping = Some (pm, ticker)"
    and "date_min (cot_dates filtered_data) = Some first_date"
    and "date_max (cot_dates filtered_data) = Some last_date"
  shows "get_commodity_prices_from_db (Some selected_commodity) None = []
       \<and> price_panel fetch price_mapping selected_commodity date_range filtered_data None
           = ([Ticker_caption (verified pm) ticker (ticker_type pm),
               price_display date_range filtered_data (fetch ticker first_date last_date)],
              if fetch ticker first_date last_date = [] then None
              else Some (map (Pair selected_commodity) (fetch ticker first_date last_date)))"
proof (cases "fetch ticker first_date last_date = []")
  case True
  with assms show ?thesis
    by (simp add: price_panel_def fetch_and_cache_def get_prices_missing_table)
next
  case False
  with assms save_one_frame [OF False, of selected_commodity None] show ?thesis
    by (simp add: price_panel_def fetch_and_cache_def get_prices_missing_table Let_def)
qed

lemma example_dates:
  "date_min (cot_dates example_data) = Some 3" "date_max (cot_dates example_data) = Some 24"
  by (simp_all add: date_min_def date_max_def cot_dates_def example_data_def)

lemma example_mapped: "mapped_ticker (Some example_mapping) = Some (example_mapping, ''GC=F'')"
  by (simp add: mapped_ticker_def example_mapping_def)

lemma example_fetched:
  "example_fetch ''GC=F'' 3 24 = [\<lparr>DATE = Some 3, CLOSE = 101\<rparr>, \<lparr>DATE = Some 10, CLOSE = 102\<rparr>]"
  by (simp add: example_fetch_def example_prices_def in_window_def)

theorem missing_table_is_cache_miss_witness:
  "mapped_ticker (Some example_mapping) = Some (example_mapping, ''GC=F'')
   \<and> date_min (cot_dates example_data) = Some 3
   \<and> date_max (cot_dates example_data) = Some 24
   \<and> get_commodity_prices_from_db (Some ''GOLD'') (None :: nat price_table) = []
   \<and> price_panel example_fetch (Some example_mapping) ''GOLD'' (Date_pair 1 31) example_data None
       = ([Ticker_caption True ''GC=F'' (Some ''futures''),
           Price_chart [\<lparr>DATE = Some 3, CLOSE = 101\<rparr>, \<lparr>DATE = Some 10, CLOSE = 102\<rparr>]
             (Some 3) (Some 24)],
          Some [(''GOLD'', \<lparr>DATE = Some 3, CLOSE = 101\<rparr>),
                (''GOLD'', \<lparr>DATE = Some 10, CLOSE = 102\<rparr>)])"
proof -
  have shown: "price_display (Date_pair 1 31) example_data
                 [\<lparr>DATE = Some 3, CLOSE = 101\<rparr>, \<lparr>DATE = Some 10, CLOSE = (102::nat)\<rparr>]
                 = Price_chart [\<lparr>DATE = Some 3, CLOSE = 101\<rparr>, \<lparr>DATE = Some 10, CLOSE = 102\<rparr>]
                     (Some 3) (Some 24)"
    by (simp add: example_dates price_display_def price_data_filtered_def in_window_def)
  have meta: "verified example_mapping = True" "ticker_type example_mapping = Some ''futures''"
    by (simp_all add: example_mapping_def)
  from missing_table_is_cache_miss [OF example_mapped example_dates,
      of "''GOLD''" example_fetch "Date_pair 1 31"]
  have "get_commodity_prices_from_db (Some ''GOLD'') (None :: nat price_table) = []
       \<and> price_panel example_fetch (Some example_mapping) ''GOLD'' (Date_pair 1 31) example_data None
       = ([Ticker_caption True ''GC=F'' (Some ''futures''),
           Price_chart [\<lparr>DATE = Some 3, CLOSE = 101\<rparr>, \<lparr>DATE = Some 10, CLOSE = 102\<rparr>]
             (Some 3) (Some 24)],
          Some [(''GOLD'', \<lparr>DATE = Some 3, CLOSE = 101\<rparr>),
                (''GOLD'', \<lparr>DATE = Some 10, CLOSE = 102\<rparr>)])"
    by (simp add: shown meta example_fetched)
  with example_mapped example_dates show ?thesis by blast
qed

lemma sort_key_Nil_iff: "sort_key f xs = [] \<longleftrightarrow> xs = []"
  using length_sort [of f xs] by (metis length_0_conv)

lemma save_one_frame_rows:
  "df \<noteq> [] \<Longrightarrow>
     save_prices_to_database [(commodity_name, df)] table
       = Inr (Some (stored_rows table @ map (Pair commodity_name) df))"
  by (simp add: save_prices_to_database_def stored_rows_def)

text \<open>
  C8 as stated fails: \<^verbatim>\<open>to_sql(..., if_exists='append')\<close> adds rows and never replaces
  any. Saving a series of one row twice stores that row twice, and reading the commodity
  back then gives two rows where one save gives one.
\<close>

theorem save_twice_duplicates_counterexample:
  "save_prices_to_database [(''GOLD'', [\<lparr>DATE = Some 3, CLOSE = 101\<rparr>])] None
     = Inr (Some [(''GOLD'', \<lparr>DATE = Some 3, CLOSE = (101::nat)\<rparr>)])
   \<and> save_prices_to_database [(''GOLD'', [\<lparr>DATE = Some 3, CLOSE = 101\<rparr>])]
        (Some [(''GOLD'', \<lparr>DATE = Some 3, CLOSE = 101\<rparr>)])
     = Inr (Some [(''GOLD'', \<lparr>DATE = Some 3, CLOSE = 101\<rparr>),
                  (''GOLD'', \<lparr>DATE = Some 3, CLOSE = (101::nat)\<rparr>)])
   \<and> get_commodity_prices_from_db (Some ''GOLD'')
        (Some [(''GOLD'', \<lparr>DATE = Some 3, CLOSE = 101\<rparr>),
               (''GOLD'', \<lparr>DATE = Some 3, CLOSE = (101::nat)\<rparr>)])
     = [\<lparr>DATE = Some 3, CLOSE = 101\<rparr>, \<lparr>DATE = Some 3, CLOSE = 101\<rparr>]
   \<and> get_commodity_prices_from_db (Some ''GOLD'')
        (Some [(''GOLD'', \<lparr>DATE = Some 3, CLOSE = (101::nat)\<rparr>)])
     = [\<lparr>DATE = Some 3, CLOSE = 101\<rparr>]"
  by (simp add: save_prices_to_database_def get_commodity_prices_from_db_def)

text \<open>
  C8, amended. Saving a series that has rows appends them under the commodity name: the
  table then holds the rows it held before followed by the rows of the series, and a
  second save of the same series adds them once more; the rows of other commodities are
  the same after both saves. When the commodity had no stored rows, which is the state in
  which the price panel saves, one save leaves exactly the rows of the series for it, in
  date order, and two saves leave twice as many.
\<close>

theorem save_prices_appends:
  assumes "df \<noteq> []"
    and "save_prices_to_database [(commodity_name, df)] table = Inr once"
    and "save_prices_to_database [(commodity_name, df)] once = Inr twice"
  shows "stored_rows once = stored_rows table @ map (Pair commodity_name) df
       \<and> stored_rows twice
           = stored_rows table @ map (Pair commodity_name) df @ map (Pair commodity_name) df
       \<and> filter (\<lambda>r. fst r \<noteq> commodity_name) (stored_rows twice)
           = filter (\<lambda>r. fst r \<noteq> commodity_name) (stored_rows table)
       \<and> (commodity_name \<noteq> [] \<and> get_commodity_prices_from_db (Some commodity_name) table = []
            \<longrightarrow> get_commodity_prices_from_db (Some commodity_name) once = sort_key DATE df
              \<and> length (get_commodity_prices_from_db (Some commodity_name) twice)
                  = 2 * length df)"
proof -
  have once: "once = Some (stored_rows table @ map (Pair commodity_name) df)"
    using assms(2) save_one_frame_rows [OF assms(1), of commodity_name table] by simp
  have twice: "twice = Some (stored_rows table @ map (Pair commodity_name) df
                               @ map (Pair commodity_name) df)"
    using assms(3) save_one_frame_rows [OF assms(1), of commodity_name once]
    by (simp add: once stored_rows_def)
  have own: "filter (\<lambda>r. fst r = commodity_name) (map (Pair commodity_name) df)
               = map (Pair commodity_name) df"
    by (induction df) simp_all
  have other: "filter (\<lambda>r. fst r \<noteq> commodity_name) (map (Pair commodity_name) df) = []"
    by (induction df) simp_all
  have miss: "filter (\<lambda>r. fst r = commodity_name) (stored_rows table) = []"
    if "commodity_name \<noteq> []"
      and "get_commodity_prices_from_db (Some commodity_name) table = []"
    using that
    by (cases table)
      (simp_all add: get_commodity_prices_from_db_def stored_rows_def sort_key_Nil_iff)
  show ?thesis
    by (auto simp: once twice stored_rows_def other own get_commodity_prices_from_db_def
        comp_def dest!: miss [unfolded stored_rows_def])
qed

theorem save_prices_appends_witness:
  "[\<lparr>DATE = Some 3, CLOSE = (101::nat)\<rparr>] \<noteq> []
   \<and> save_prices_to_database [(''GOLD'', [\<lparr>DATE = Some 3, CLOSE = 101\<rparr>])] None
       = Inr (Some [(''GOLD'', \<lparr>DATE = Some 3, CLOSE = (101::nat)\<rparr>)])
   \<and> save_prices_to_database [(''GOLD'', [\<lparr>DATE = Some 3, CLOSE = 101\<rparr>])]
         (Some [(''GOLD'', \<lparr>DATE = Some 3, CLOSE = 101\<rparr>)])
       = Inr (Some [(''GOLD'', \<lparr>DATE = Some 3, CLOSE = 101\<rparr>),
                    (''GOLD'', \<lparr>DATE = Some 3, CLOSE = (101::nat)\<rparr>)])
   \<and> ''GOLD'' \<noteq> []
   \<and> get_commodity_prices_from_db (Some ''GOLD'') (None :: nat price_table) = []
   \<and> get_commodity_prices_from_db (Some ''GOLD'')
         (Some [(''GOLD'', \<lparr>DATE = Some 3, CLOSE = (101::nat)\<rparr>)])
       = sort_key DATE [\<lparr>DATE = Some 3, CLOSE = 101\<rparr>]
   \<and> length (get_commodity_prices_from_db (Some ''GOLD'')
         (Some [(''GOLD'', \<lparr>DATE = Some 3, CLOSE = 101\<rparr>),
                (''GOLD'', \<lparr>DATE = Some 3, CLOSE = (101::nat)\<rparr>)]))
       = 2 * length [\<lparr>DATE = Some 3, CLOSE = (101::nat)\<rparr>]"
proof -
  have ne: "[\<lparr>DATE = Some 3, CLOSE = (101::nat)\<rparr>] \<noteq> []"
    by simp
  have once: "save_prices_to_database [(''GOLD'', [\<lparr>DATE = Some 3, CLOSE = 101\<rparr>])] None
                = Inr (Some [(''GOLD'', \<lparr>DATE = Some 3, CLOSE = (101::nat)\<rparr>)])"
    by (simp add: save_prices_to_database_def)
  have twice: "save_prices_to_database [(''GOLD'', [\<lparr>DATE = Some 3, CLOSE = 101\<rparr>])]
                 (Some [(''GOLD'', \<lparr>DATE = Some 3, CLOSE = 101\<rparr>)])
               = Inr (Some [(''GOLD'', \<lparr>DATE = Some 3, CLOSE = 101\<rparr>),
                            (''GOLD'', \<lparr>DATE = Some 3, CLOSE = (101::nat)\<rparr>)])"
    by (simp add: save_prices_to_database_def)
  have name: "''GOLD'' \<noteq> []"
    by simp
  have miss: "get_commodity_prices_from_db (Some ''GOLD'') (None :: nat price_table) = []"
    by (simp add: get_commodity_prices_from_db_def)
  from save_prices_appends [OF ne once twice] name miss
  show ?thesis
    using ne once twice by blast
qed

section \<open>Properties of the temporal aligner\<close>

lemma set_dropna: "set (dropna xs) = {t. Some t \<in> set xs}"
  by (induction xs) (auto split: option.splits)

lemma date_min_Some:
  assumes "date_min ds = Some a"
  shows "a \<in> set (dropna ds) \<and> (\<forall>t\<in>set (dropna ds). a \<le> t)"
proof (cases "dropna ds")
  case Nil
  with assms show ?thesis by (simp add: date_min_def)
next
  case (Cons t ts)
  with assms have "a = Min (set (t # ts))"
    using Min.set_eq_fold [of t ts] by (simp add: date_min_def)
  moreover have "Min (set (t # ts)) \<in> set (t # ts)"
    by (rule Min_in) simp_all
  moreover have "\<forall>u\<in>set (t # ts). Min (set (t # ts)) \<le> u"
    by simp
  ultimately show ?thesis
    unfolding Cons by blast
qed

lemma date_max_Some:
  assumes "date_max ds = Some b"
  shows "b \<in> set (dropna ds) \<and> (\<forall>t\<in>set (dropna ds). t \<le> b)"
proof (cases "dropna ds")
  case Nil
  with assms show ?thesis by (simp add: date_max_def)
next
  case (Cons t ts)
  with assms have "b = Max (set (t # ts))"
    using Max.set_eq_fold [of t ts] by (simp add: date_max_def)
  moreover have "Max (set (t # ts)) \<in> set (t # ts)"
    by (rule Max_in) simp_all
  moreover have "\<forall>u\<in>set (t # ts). u \<le> Max (set (t # ts))"
    by simp
  ultimately show ?thesis
    unfolding Cons by blast
qed

lemma filtered_dates_in_window:
  assumes "t \<in> set (dropna (cot_dates (filter_by_date (Date_pair d0 d1) data)))"
  shows "d0 \<le> t \<and> t \<le> d1"
  using assms
  by (auto simp: set_dropna cot_dates_def filter_by_date_def in_window_def
      split: option.splits)

lemma example_filtered: "filter_by_date (Date_pair 1 31) example_data = example_data"
  by (simp add: filter_by_date_def example_data_def in_window_def)

text \<open>
  C7 as stated fails, because the code has two ranges where the specification has one. The price
  rows are windowed to the dates selected in the sidebar, the x-axis is pinned to the
  first and last report date among the filtered positioning rows. With the selection
  1 to 31 and reports on days 3 and 24, the prices of days 2 and 25 are in the displayed
  series and outside the pinned range 3 to 24, and the pinned range is not the selection.
  When the selection is no pair of dates the price rows are not windowed at all: the
  price of day 40 is displayed.
\<close>

theorem price_window_counterexample:
  "price_display (Date_pair 1 31) (filter_by_date (Date_pair 1 31) example_data) example_prices
     = Price_chart
         [\<lparr>DATE = Some 2, CLOSE = 100\<rparr>, \<lparr>DATE = Some 3, CLOSE = 101\<rparr>,
          \<lparr>DATE = Some 10, CLOSE = 102\<rparr>, \<lparr>DATE = Some 25, CLOSE = 103\<rparr>]
         (Some 3) (Some 24)
   \<and> \<not> in_window 3 24 (Some 2) \<and> \<not> in_window 3 24 (Some 25)
   \<and> price_display Date_other (filter_by_date Date_other example_data) example_prices
     = Price_chart example_prices (Some 3) (Some 24)"
proof -
  have other: "filter_by_date Date_other example_data = example_data"
    by (simp add: filter_by_date_def)
  show ?thesis
    unfolding example_filtered other
    by (simp add: price_display_def price_data_filtered_def in_window_def example_dates
        example_prices_def)
qed

text \<open>
  C7, amended. With a selection of two dates, the displayed price rows are exactly the
  price rows whose date lies between the two selected dates, ends included, compared by
  value and in their order; the x-axis range is pinned to the least and the greatest
  report date of the positioning rows filtered by the same selection, and these lie
  inside the selection, so the pinned range may be narrower than the window of the price
  rows. With any other selection the price rows are not windowed.
\<close>

theorem price_window_alignment:
  assumes "filtered_data = filter_by_date (Date_pair d0 d1) data"
    and "price_display (Date_pair d0 d1) filtered_data price_data = Price_chart shown lo hi"
  shows "shown = filter (\<lambda>r. in_window d0 d1 (DATE r)) price_data
       \<and> (\<forall>r. r \<in> set shown \<longleftrightarrow>
              r \<in> set price_data \<and> (\<exists>t. DATE r = Some t \<and> d0 \<le> t \<and> t \<le> d1))
       \<and> lo = date_min (cot_dates filtered_data)
       \<and> hi = date_max (cot_dates filtered_data)
       \<and> (\<forall>a b. lo = Some a \<and> hi = Some b \<longrightarrow>
              d0 \<le> a \<and> a \<le> b \<and> b \<le> d1
              \<and> (\<forall>t\<in>set (dropna (cot_dates filtered_data)). a \<le> t \<and> t \<le> b))
       \<and> price_data_filtered Date_other price_data = price_data"
proof -
  have chart: "shown = filter (\<lambda>r. in_window d0 d1 (DATE r)) price_data"
      "lo = date_min (cot_dates filtered_data)" "hi = date_max (cot_dates filtered_data)"
    using assms(2)
    by (simp_all add: price_display_def price_data_filtered_def Let_def split: if_splits)
  have rows_iff: "r \<in> set shown \<longleftrightarrow>
      r \<in> set price_data \<and> (\<exists>t. DATE r = Some t \<and> d0 \<le> t \<and> t \<le> d1)" for r
    unfolding chart(1) by (auto simp: in_window_def split: option.splits)
  have range: "d0 \<le> a \<and> a \<le> b \<and> b \<le> d1
      \<and> (\<forall>t\<in>set (dropna (cot_dates filtered_data)). a \<le> t \<and> t \<le> b)"
    if "lo = Some a" "hi = Some b" for a b
  proof -
    from that chart have mn: "date_min (cot_dates filtered_data) = Some a"
      and mx: "date_max (cot_dates filtered_data) = Some b"
      by simp_all
    note least = date_min_Some [OF mn] and greatest = date_max_Some [OF mx]
    from least have "d0 \<le> a"
      using filtered_dates_in_window [of a d0 d1 data] assms(1) by simp
    moreover from greatest have "b \<le> d1"
      using filtered_dates_in_window [of b d0 d1 data] assms(1) by simp
    moreover from least greatest have "a \<le> b" by blast
    ultimately show ?thesis using least greatest by blast
  qed
  have other: "price_data_filtered Date_other price_data = price_data"
    by (simp add: price_data_filtered_def)
  from chart rows_iff range other show ?thesis by blast
qed

theorem price_window_alignment_witness:
  "price_display (Date_pair 1 31) (filter_by_date (Date_pair 1 31) example_data) example_prices
     = Price_chart
         [\<lparr>DATE = Some 2, CLOSE = 100\<rparr>, \<lparr>DATE = Some 3, CLOSE = 101\<rparr>,
          \<lparr>DATE = Some 10, CLOSE = 102\<rparr>, \<lparr>DATE = Some 25, CLOSE = 103\<rparr>]
         (Some 3) (Some 24)
   \<and> [\<lparr>DATE = Some 2, CLOSE = 100\<rparr>, \<lparr>DATE = Some 3, CLOSE = 101\<rparr>,
       \<lparr>DATE = Some 10, CLOSE = 102\<rparr>, \<lparr>DATE = Some 25, CLOSE = 103\<rparr>]
     = filter (\<lambda>r. in_window 1 31 (DATE r)) example_prices
   \<and> Some 3 = date_min (cot_dates (filter_by_date (Date_pair 1 31) example_data))
   \<and> Some 24 = date_max (cot_dates (filter_by_date (Date_pair 1 31) example_data))
   \<and> (1::int) \<le> 3 \<and> (3::int) \<le> 24 \<and> (24::int) \<le> 31"
proof -
  have other: "filter_by_date Date_other example_data = example_data"
    by (simp add: filter_by_date_def)
  have shown: "price_display (Date_pair 1 31) (filter_by_date (Date_pair 1 31) example_data)
                 example_prices
     = Price_chart
         [\<lparr>DATE = Some 2, CLOSE = 100\<rparr>, \<lparr>DATE = Some 3, CLOSE = 101\<rparr>,
          \<lparr>DATE = Some 10, CLOSE = 102\<rparr>, \<lparr>DATE = Some 25, CLOSE = 103\<rparr>]
         (Some 3) (Some 24)"
    unfolding example_filtered
    by (simp add: price_display_def price_data_filtered_def in_window_def example_dates
        example_prices_def)
  have nums: "(1::int) \<le> 3 \<and> (3::int) \<le> 24 \<and> (24::int) \<le> 31"
    by simp
  from price_window_alignment [OF refl shown] shown nums show ?thesis
    by blast
qed

section \<open>The tokens of the validator are the identifier-like words\<close>

text \<open>
  The scan of \<^verbatim>\<open>re.findall\<close> finds exactly the runs of letters, digits and underscores
  that start with a letter or an underscore and are not part of a longer run.
\<close>

lemma class_sets:
  "x \<in> set (L @ U @ D) \<longleftrightarrow> x \<in> set (U @ L @ D)"
  "x \<in> set (U @ L @ [u]) \<Longrightarrow> x \<in> set (U @ L @ D @ [u])"
  by auto

lemma ascii_word_ident_char:
  "c \<in> set ''abcdefghijklmnopqrstuvwxyzABCDEFGHIJKLMNOPQRSTUVWXYZ0123456789_'' \<longleftrightarrow> ident_char c"
proof -
  have "c \<in> set (''abcdefghijklmnopqrstuvwxyz'' @ ''ABCDEFGHIJKLMNOPQRSTUVWXYZ'' @ ''0123456789_'')
        \<longleftrightarrow> c \<in> set (''ABCDEFGHIJKLMNOPQRSTUVWXYZ'' @ ''abcdefghijklmnopqrstuvwxyz'' @ ''0123456789_'')"
    by (rule class_sets(1))
  then show ?thesis
    unfolding ident_char_def append.simps .
qed

lemma word_char_iff: "word_char c \<longleftrightarrow> ident_char c \<or> c \<in> set latin1_word_chars"
  unfolding word_char_def by (simp only: ascii_word_ident_char)

lemma allowed_low: "c \<in> set allowed_chars \<Longrightarrow> \<not> digit7 c"
  by (auto simp: allowed_chars_def)

lemma word_char_allowed: "c \<in> set allowed_chars \<Longrightarrow> word_char c = ident_char c"
  using latin1_word_high [of c] allowed_low [of c] by (auto simp: word_char_iff)

lemma ident_start_ident_char: "ident_start c \<Longrightarrow> ident_char c"
proof -
  assume "ident_start c"
  then have "c \<in> set (''ABCDEFGHIJKLMNOPQRSTUVWXYZ'' @ ''abcdefghijklmnopqrstuvwxyz'' @ [CHR ''_''])"
    unfolding ident_start_def append.simps .
  then have "c \<in> set (''ABCDEFGHIJKLMNOPQRSTUVWXYZ'' @ ''abcdefghijklmnopqrstuvwxyz''
                        @ ''0123456789'' @ [CHR ''_''])"
    by (rule class_sets(2))
  then show ?thesis
    unfolding ident_char_def append.simps .
qed

text \<open>
  In a text whose word characters are all in \<^verbatim>\<open>[A-Za-z0-9_]\<close>, as every text that passed
  the whitelist is, \<^verbatim>\<open>\b\<close> holds at the end of every run.
\<close>

lemma closing_boundary:
  assumes "\<forall>x\<in>set cs. word_char x = ident_char x"
  shows "at_boundary True (dropWhile ident_char cs)"
proof (cases "dropWhile ident_char cs")
  case Nil
  show ?thesis unfolding at_boundary_def Nil by simp
next
  case (Cons d ds)
  then have "\<not> ident_char d"
    using hd_dropWhile [of ident_char cs] by simp
  moreover have "d \<in> set cs"
    using Cons set_dropWhileD [of d ident_char cs] by simp
  ultimately have "\<not> word_char d"
    using assms by simp
  then show ?thesis unfolding at_boundary_def Cons by simp
qed

lemma token_afterI:
  assumes "s = pre @ t @ post" "t \<noteq> []" "ident_start (hd t)" "list_all ident_char t"
    and "if pre = [] then \<not> pw else \<not> ident_char (last pre)"
    and "if post = [] then True else \<not> ident_char (hd post)"
  shows "token_after pw t s"
  unfolding token_after_def using assms by blast

lemma findall_from_sound:
  "\<forall>x\<in>set s. word_char x = ident_char x \<Longrightarrow> t \<in> set (findall_from pw s)
     \<Longrightarrow> token_after pw t s"
proof (induction pw s rule: findall_from.induct)
  case (1 pw)
  then show ?case by simp
next
  case (2 pw c cs)
  let ?run = "c # takeWhile ident_char cs"
  let ?rest = "dropWhile ident_char cs"
  from "2.prems"(1) have plain_cs: "\<forall>x\<in>set cs. word_char x = ident_char x"
    and c: "word_char c = ident_char c"
    by simp_all
  from plain_cs have plain_rest: "\<forall>x\<in>set ?rest. word_char x = ident_char x"
    by (auto dest: set_dropWhileD)
  show ?case
  proof (cases "\<not> pw \<and> ident_start c")
    case True
    from "2.prems"(2) True closing_boundary [OF plain_cs]
    have "t = ?run \<or> t \<in> set (findall_from True ?rest)"
      by simp
    then show ?thesis
    proof
      assume t: "t = ?run"
      show ?thesis
      proof (rule token_afterI [where pre = "[]" and post = ?rest])
        show "c # cs = [] @ t @ ?rest" by (simp add: t)
        show "t \<noteq> []" by (simp add: t)
        show "ident_start (hd t)" using True by (simp add: t)
        show "list_all ident_char t"
          using True ident_start_ident_char [of c]
          by (auto simp: t list_all_iff dest: set_takeWhileD)
        show "if [] = [] then \<not> pw else \<not> ident_char (last [])" using True by simp
        show "if ?rest = [] then True else \<not> ident_char (hd ?rest)"
          using hd_dropWhile [of ident_char cs] by simp
      qed
    next
      assume "t \<in> set (findall_from True ?rest)"
      with "2.IH"(1) True plain_rest have "token_after True t ?rest" by blast
      then obtain pre post where tok: "?rest = pre @ t @ post" "t \<noteq> []" "ident_start (hd t)"
          "list_all ident_char t" "if pre = [] then \<not> True else \<not> ident_char (last pre)"
          "if post = [] then True else \<not> ident_char (hd post)"
        unfolding token_after_def by blast
      from tok(5) have pre: "pre \<noteq> []" "\<not> ident_char (last pre)"
        by (auto split: if_splits)
      show ?thesis
      proof (rule token_afterI [where pre = "?run @ pre" and post = post])
        have "c # cs = ?run @ ?rest" by simp
        then show "c # cs = (?run @ pre) @ t @ post" by (simp only: tok(1) append_assoc)
        show "if ?run @ pre = [] then \<not> pw else \<not> ident_char (last (?run @ pre))"
          using pre by simp
      qed (use tok in simp_all)
    qed
  next
    case False
    with "2.prems"(2) have "t \<in> set (findall_from (word_char c) cs)" by auto
    with "2.IH"(2) False plain_cs have "token_after (ident_char c) t cs"
      by (simp add: c)
    then obtain pre post where tok: "cs = pre @ t @ post" "t \<noteq> []" "ident_start (hd t)"
        "list_all ident_char t"
        "if pre = [] then \<not> ident_char c else \<not> ident_char (last pre)"
        "if post = [] then True else \<not> ident_char (hd post)"
      unfolding token_after_def by blast
    show ?thesis
    proof (rule token_afterI [where pre = "c # pre" and post = post])
      show "c # cs = (c # pre) @ t @ post" by (simp add: tok(1))
      show "if c # pre = [] then \<not> pw else \<not> ident_char (last (c # pre))"
        using tok(5) by (auto split: if_splits)
    qed (use tok in simp_all)
  qed
qed

lemma takeWhile_run:
  assumes "list_all P xs" and "if ys = [] then True else \<not> P (hd ys)"
  shows "takeWhile P (xs @ ys) = xs"
proof -
  have "takeWhile P ys = []"
    using assms(2) by (cases ys) (simp_all split: if_splits)
  with assms(1) show ?thesis
    by (simp add: list_all_iff takeWhile_append2)
qed

lemma findall_from_complete:
  "\<forall>x\<in>set s. word_char x = ident_char x \<Longrightarrow> token_after pw t s
     \<Longrightarrow> t \<in> set (findall_from pw s)"
proof (induction pw s rule: findall_from.induct)
  case (1 pw)
  then show ?case by (auto simp: token_after_def)
next
  case (2 pw c cs)
  from "2.prems"(1) have plain_cs: "\<forall>x\<in>set cs. word_char x = ident_char x"
    and wc: "word_char c = ident_char c"
    by simp_all
  from plain_cs have plain_rest:
    "\<forall>x\<in>set (dropWhile ident_char cs). word_char x = ident_char x"
    by (auto dest: set_dropWhileD)
  note closing = closing_boundary [OF plain_cs]
  from "2.prems"(2) obtain pre post where tok: "c # cs = pre @ t @ post" "t \<noteq> []"
      "ident_start (hd t)" "list_all ident_char t"
      "if pre = [] then \<not> pw else \<not> ident_char (last pre)"
      "if post = [] then True else \<not> ident_char (hd post)"
    unfolding token_after_def by blast
  show ?case
  proof (cases pre)
    case Nil
    with tok(1,2) obtain t' where t: "t = c # t'" and cs: "cs = t' @ post"
      by (cases t) simp_all
    from tok(3,5) Nil t have start: "\<not> pw \<and> ident_start c" by simp
    from tok(4) t have "list_all ident_char t'" by simp
    then have "takeWhile ident_char cs = t'"
      unfolding cs using tok(6) by (rule takeWhile_run)
    with start t closing show ?thesis by simp
  next
    case (Cons a pre')
    with tok(1) have a: "a = c" and cs: "cs = pre' @ t @ post" by simp_all
    from tok(5) Cons have last: "\<not> ident_char (last (c # pre'))" by (simp add: a)
    show ?thesis
    proof (cases "\<not> pw \<and> ident_start c")
      case True
      then have c: "ident_char c" by (simp add: ident_start_ident_char)
      with last have pre': "pre' \<noteq> []" "\<not> ident_char (last pre')"
        by (auto split: if_splits)
      then have mem: "last pre' \<in> set pre'" by simp
      have rest: "dropWhile ident_char cs = dropWhile ident_char pre' @ t @ post"
        unfolding cs using mem pre'(2) by (rule dropWhile_append1)
      have ne: "dropWhile ident_char pre' \<noteq> []"
        using mem pre'(2) by (auto simp: dropWhile_eq_Nil_conv)
      have lst: "last (dropWhile ident_char pre') = last pre'"
        using mem pre'(2) by (rule dropWhile_last)
      have "token_after True t (dropWhile ident_char cs)"
      proof (rule token_afterI [where pre = "dropWhile ident_char pre'" and post = post])
        show "if dropWhile ident_char pre' = [] then \<not> True
              else \<not> ident_char (last (dropWhile ident_char pre'))"
          using ne lst pre'(2) by simp
      qed (use tok rest in simp_all)
      with "2.IH"(1) True plain_rest
      have "t \<in> set (findall_from True (dropWhile ident_char cs))"
        by blast
      with True show ?thesis by simp
    next
      case False
      have "token_after (ident_char c) t cs"
      proof (rule token_afterI [where pre = pre' and post = post])
        show "if pre' = [] then \<not> ident_char c else \<not> ident_char (last pre')"
          using last by (auto split: if_splits)
      qed (use tok cs in simp_all)
      with "2.IH"(2) False plain_cs have "t \<in> set (findall_from (word_char c) cs)"
        by (simp add: wc)
      with False show ?thesis by auto
    qed
  qed
qed

lemma findall_identifiers_iff:
  assumes "list_all (\<lambda>c. c \<in> set allowed_chars) s"
  shows "t \<in> set (findall_identifiers s) \<longleftrightarrow> identifier_token_of t s"
proof -
  from assms have "\<forall>x\<in>set s. word_char x = ident_char x"
    by (simp add: list_all_iff word_char_allowed)
  then show ?thesis
    unfolding findall_identifiers_def identifier_token_of_def
    using findall_from_sound findall_from_complete by blast
qed

lemma join_names:
  "t \<in> set items \<Longrightarrow> \<exists>before after. join sep items = before @ t @ after"
proof (induction sep items rule: join.induct)
  case (1 sep)
  then show ?case by simp
next
  case (2 sep x)
  then have "join sep [x] = [] @ t @ []" by simp
  then show ?case by blast
next
  case (3 sep x y ys)
  show ?case
  proof (cases "t = x")
    case True
    then have "join sep (x # y # ys) = [] @ t @ (sep @ join sep (y # ys))" by simp
    then show ?thesis by blast
  next
    case False
    with "3.prems" have "t \<in> set (y # ys)" by simp
    with "3.IH" obtain before after where "join sep (y # ys) = before @ t @ after" by blast
    then have "join sep (x # y # ys) = (x @ sep @ before) @ t @ after" by simp
    then show ?thesis by blast
  qed
qed

lemma offending_iff:
  assumes "list_all (\<lambda>c. c \<in> set allowed_chars) tf"
  shows "t \<in> set (offending data tf) \<longleftrightarrow>
     identifier_token_of t tf \<and> t \<notin> set (columns data)
     \<and> t \<notin> set [''min'', ''max'', ''sum'', ''abs'', ''round'']"
  unfolding offending_def
  by (simp only: set_filter mem_Collect_eq findall_identifiers_iff [OF assms]) blast

text \<open>
  C5. For a formula that is not blank and whose translation passes the whitelist, the
  tokens that the validator reports are exactly the identifier-like words of the
  translated formula that are neither a column of the dataset nor one of \<open>min\<close>,
  \<open>max\<close>, \<open>sum\<close>, \<open>abs\<close>, \<open>round\<close>. When there is such a token the formula is
  rejected with \<open>Columns not found:\<close> followed by all of them, each of which occurs in
  the message; when there is none the check passes and the result is that of the
  evaluator. In particular \<open>NotARealColumn + 1\<close> is rejected naming \<open>NotARealColumn\<close>.
\<close>

theorem unresolved_columns_reported:
  assumes "\<exists>c\<in>set formula. \<not> space_char c"
    and "tf = convert_short_names_to_technical (strip formula) m"
    and "list_all (\<lambda>c. c \<in> set allowed_chars) tf"
  shows "(\<forall>t. t \<in> set (offending data tf) \<longleftrightarrow>
            identifier_token_of t tf \<and> t \<notin> set (columns data)
            \<and> t \<notin> set [''min'', ''max'', ''sum'', ''abs'', ''round''])
       \<and> (offending data tf \<noteq> [] \<longrightarrow>
            evaluate_formula pd_eval formula data m
              = (None, Some (''Columns not found: '' @ join '', '' (offending data tf)))
            \<and> (\<forall>t\<in>set (offending data tf).
                  \<exists>before after. join '', '' (offending data tf) = before @ t @ after))
       \<and> (offending data tf = [] \<longrightarrow>
            evaluate_formula pd_eval formula data m
              = (case pd_eval data (strip_operator_spaces tf) of
                   Inr result \<Rightarrow> (Some result, None)
                 | Inl e \<Rightarrow>
                     (None, Some (''Formula error: '' @ e @
                        ''. Make sure to use proper column names and operators (+, -, *, /)''))))
       \<and> (\<forall>ev. evaluate_formula ev ''NotARealColumn + 1'' example_data example_aliases
              = (None, Some ''Columns not found: NotARealColumn''))"
proof -
  have ne: "strip formula \<noteq> []"
    using assms(1) by (simp add: strip_eq_Nil_iff)
  have ok: "list_all (\<lambda>c. c \<in> set allowed_chars)
              (convert_short_names_to_technical (strip formula) m)"
    using assms(2,3) by simp
  have tokens: "\<forall>t. t \<in> set (offending data tf) \<longleftrightarrow>
            identifier_token_of t tf \<and> t \<notin> set (columns data)
            \<and> t \<notin> set [''min'', ''max'', ''sum'', ''abs'', ''round'']"
    by (simp only: offending_iff [OF assms(3)] simp_thms)
  have rejected: "evaluate_formula pd_eval formula data m
              = (None, Some (''Columns not found: '' @ join '', '' (offending data tf)))"
    if "offending data tf \<noteq> []"
    using evaluate_formula_missing [OF ne ok, where data = data and pd_eval = pd_eval] that
    unfolding assms(2) by simp
  have named: "\<forall>t\<in>set (offending data tf).
                  \<exists>before after. join '', '' (offending data tf) = before @ t @ after"
    using join_names by blast
  have passed: "evaluate_formula pd_eval formula data m
              = (case pd_eval data (strip_operator_spaces tf) of
                   Inr result \<Rightarrow> (Some result, None)
                 | Inl e \<Rightarrow>
                     (None, Some (''Formula error: '' @ e @
                        ''. Make sure to use proper column names and operators (+, -, *, /)'')))"
    if "offending data tf = []"
    using evaluate_formula_checked [OF ne ok, where data = data and pd_eval = pd_eval] that
    unfolding assms(2) by simp
  have example: "\<forall>ev. evaluate_formula ev ''NotARealColumn + 1'' example_data example_aliases
              = (None, Some ''Columns not found: NotARealColumn'')"
    by (simp only: unknown_column_evaluation simp_thms)
  from tokens rejected named passed example show ?thesis
    by (intro conjI impI) assumption+
qed

theorem unresolved_columns_reported_witness:
  "(\<exists>c\<in>set ''NotARealColumn + 1''. \<not> space_char c)
   \<and> ''NotARealColumn + 1''
       = convert_short_names_to_technical (strip ''NotARealColumn + 1'') example_aliases
   \<and> list_all (\<lambda>c. c \<in> set allowed_chars) ''NotARealColumn + 1''
   \<and> offending example_data ''NotARealColumn + 1'' = [''NotARealColumn'']
   \<and> identifier_token_of ''NotARealColumn'' ''NotARealColumn + 1''
   \<and> evaluate_formula echo_eval ''NotARealColumn + 1'' example_data example_aliases
       = (None, Some ''Columns not found: NotARealColumn'')"
proof -
  have a: "\<exists>c\<in>set ''NotARealColumn + 1''. \<not> space_char c"
    by (simp add: space_char_def)
  have b: "''NotARealColumn + 1''
             = convert_short_names_to_technical (strip ''NotARealColumn + 1'') example_aliases"
    by (simp only: unknown_column_strip unknown_column_translation)
  note c = unknown_column_whitelist
  note inst = unresolved_columns_reported [OF a b c, of example_data echo_eval]
  have mem: "''NotARealColumn'' \<in> set (offending example_data ''NotARealColumn + 1'')"
    by (simp only: unknown_column_offending list.set insert_iff simp_thms)
  from inst mem have tok: "identifier_token_of ''NotARealColumn'' ''NotARealColumn + 1''"
    by blast
  have ne: "offending example_data ''NotARealColumn + 1'' \<noteq> []"
    by (simp only: unknown_column_offending list.distinct not_False_eq_True)
  from inst ne have res: "evaluate_formula echo_eval ''NotARealColumn + 1'' example_data
                           example_aliases
       = (None, Some (''Columns not found: ''
            @ join '', '' (offending example_data ''NotARealColumn + 1'')))"
    by blast
  have msg: "''Columns not found: '' @ join '', '' (offending example_data ''NotARealColumn + 1'')
               = ''Columns not found: NotARealColumn''"
    by (simp add: unknown_column_offending)
  from a b c unknown_column_offending tok res [unfolded msg] show ?thesis
    by (intro conjI) assumption+
qed

section \<open>What a formula error leaves untouched\<close>

text \<open>
  The part of C9 that the code keeps. When the left formula fails and the right axis
  has a column or a formula result, the chart is drawn with every column and the formula
  trace of the right axis, and the messages under it are the left error under the left
  axis' name and the right error, if any, under the right one's.
\<close>

lemma other_axis_still_rendered:
  assumes "snd (formula_slot pd_eval left_formula data m) = Some e"
    and "right_axis_columns \<noteq> [] \<or> fst (formula_slot pd_eval right_formula data m) \<noteq> None"
  shows "\<exists>traces errors.
           positioning_chart pd_eval left_formula right_formula left_axis_columns
             right_axis_columns data m = Figure traces errors
           \<and> set (map (column_trace Y2) right_axis_columns) \<subseteq> set traces
           \<and> set (formula_trace right_formula ''#ff7f0e'' Y2
                     (fst (formula_slot pd_eval right_formula data m))) \<subseteq> set traces
           \<and> errors = error_line ''Left axis formula error: '' (Some e)
                        @ error_line ''Right axis formula error: ''
                            (snd (formula_slot pd_eval right_formula data m))"
proof -
  obtain lr where l: "formula_slot pd_eval left_formula data m = (lr, Some e)"
    using assms(1) by (cases "formula_slot pd_eval left_formula data m") simp
  obtain rr re where r: "formula_slot pd_eval right_formula data m = (rr, re)"
    by (cases "formula_slot pd_eval right_formula data m")
  from assms(2) r have "right_axis_columns \<noteq> [] \<or> rr \<noteq> None" by simp
  then show ?thesis
    unfolding positioning_chart_def l r by auto
qed

text \<open>
  The price panel is computed from the price mapping, the commodity, the selected dates,
  the filtered rows and the price table: neither formula and neither column selection
  takes part in it.
\<close>

lemma price_panel_ignores_formulas:
  "visualization pd_eval fetch price_mapping selected_commodity data numeric_columns date_range
       left_formula right_formula left_axis_columns right_axis_columns table =
     (if rows data = [] \<or> columns data = [] then Inr (No_data_warning, table)
      else if date_min (cot_dates (filter_by_date date_range data)) = None
      then Inl ValueError_NaT_strftime
      else Inr (Page (positioning_chart pd_eval left_formula right_formula left_axis_columns
                        right_axis_columns (filter_by_date date_range data)
                        (short_to_technical numeric_columns))
                  (fst (price_panel fetch price_mapping selected_commodity date_range
                          (filter_by_date date_range data) table)),
                snd (price_panel fetch price_mapping selected_commodity date_range
                       (filter_by_date date_range data) table)))"
  by (simp add: visualization_def Let_def split: prod.splits)

section \<open>White space beyond ASCII\<close>

text \<open>
  \<^verbatim>\<open>str.strip\<close> also removes the no-break space and the next-line character. A formula
  made of a no-break space is blank, and a no-break space in front of a column name is
  stripped before the whitelist is applied.
\<close>

lemma no_break_space_is_blank:
  "evaluate_formula pd_eval [CHR 0xA0] data m = (None, None)
   \<and> evaluate_formula pd_eval [CHR 0x85, CHR 0x20] data m = (None, None)"
  by (simp add: evaluate_formula_blank strip_def space_char_def)

lemma no_break_space_is_stripped:
  "strip (CHR 0xA0 # ''Open_Interest_All'') = ''Open_Interest_All''
   \<and> evaluate_formula echo_eval (CHR 0xA0 # ''Open_Interest_All'') example_data example_aliases
       = (Some ''Open_Interest_All'', None)"
proof -
  have st: "strip (CHR 0xA0 # ''Open_Interest_All'') = ''Open_Interest_All''"
    by (simp add: strip_def space_char_def)
  have tr: "convert_short_names_to_technical ''Open_Interest_All'' example_aliases
              = ''Open_Interest_All''"
    by (simp add: convert_short_names_to_technical_def sorted_short_names_def regex_eval
        example_aliases_def)
  have ne: "strip (CHR 0xA0 # ''Open_Interest_All'') \<noteq> []"
    by (simp add: st)
  have ok: "list_all (\<lambda>c. c \<in> set allowed_chars)
              (convert_short_names_to_technical (strip (CHR 0xA0 # ''Open_Interest_All''))
                 example_aliases)"
    by (simp add: st tr allowed_chars_def)
  have toks: "findall_identifiers ''Open_Interest_All'' = [''Open_Interest_All'']"
    by (simp add: findall_identifiers_def ident_start_def ident_char_def at_boundary_def)
  have none: "offending example_data
                (convert_short_names_to_technical (strip (CHR 0xA0 # ''Open_Interest_All''))
                   example_aliases) = []"
    by (simp add: st tr offending_def toks example_data_def)
  have norm: "strip_operator_spaces ''Open_Interest_All'' = ''Open_Interest_All''"
    by (simp add: space_char_def)
  from evaluate_formula_checked [OF ne ok none, where pd_eval = echo_eval]
  have "evaluate_formula echo_eval (CHR 0xA0 # ''Open_Interest_All'') example_data
          example_aliases = (Some ''Open_Interest_All'', None)"
    by (simp add: st tr norm echo_eval_def)
  with st show ?thesis by blast
qed

section \<open>A selection inside the report dates\<close>

text \<open>
  The date widget only offers dates between the first and the last report. With the
  selection 4 to 24 the one report left is that of day 24, so the x-axis is pinned to
  that single day, while the price of day 10 lies in the selected window and is displayed.
\<close>

lemma price_window_inside_reports:
  "price_display (Date_pair 4 24) (filter_by_date (Date_pair 4 24) example_data) example_prices
     = Price_chart [\<lparr>DATE = Some 10, CLOSE = 102\<rparr>] (Some 24) (Some 24)"
proof -
  have "filter_by_date (Date_pair 4 24) example_data
          = \<lparr>columns = columns example_data,
             rows = [\<lparr>As_of_Date_In_Form_YYMMDD = Some 24, cells = ()\<rparr>]\<rparr>"
    by (simp add: filter_by_date_def example_data_def in_window_def)
  then show ?thesis
    by (simp add: price_display_def price_data_filtered_def in_window_def example_prices_def
        date_min_def date_max_def cot_dates_def)
qed

end
